theory Spec2Isabelle
  imports Main "HOL-Library.AList"
begin

section \<open>Versions and the update policy (package version)\<close>

text \<open>
  The checker works on values of the library type \<open>version.Version\<close> of
  hashicorp/go-version.  The library is not part of the repository, so a version is
  modelled by what its accessors return: \<open>Segments()\<close>, \<open>Prerelease()\<close> and
  \<open>String()\<close>.  The parser \<open>NewVersion\<close> and the ordering \<open>Compare\<close> are
  parameters, collected in a record; \<open>GreaterThanOrEqual\<close> and \<open>LessThan\<close> are the
  library's one-line wrappers around \<open>Compare\<close>.
\<close>

record Version =
  Segments :: "int list"
  Prerelease :: string
  VString :: string

record VersionLib =
  NewVersion :: "string \<Rightarrow> Version option"
  Compare :: "Version \<Rightarrow> Version \<Rightarrow> int"

definition GreaterThanOrEqual :: "VersionLib \<Rightarrow> Version \<Rightarrow> Version \<Rightarrow> bool" where
  "GreaterThanOrEqual lib v other = (Compare lib v other \<ge> 0)"

definition LessThan :: "VersionLib \<Rightarrow> Version \<Rightarrow> Version \<Rightarrow> bool" where
  "LessThan lib v other = (Compare lib v other < 0)"

text \<open>\<open>type UpdateType string\<close> with its four constants; the zero value is the empty string.\<close>

type_synonym UpdateType = string

abbreviation UpdateTypeMajor :: UpdateType where "UpdateTypeMajor \<equiv> ''major''"
abbreviation UpdateTypeMinor :: UpdateType where "UpdateTypeMinor \<equiv> ''minor''"
abbreviation UpdateTypePatch :: UpdateType where "UpdateTypePatch \<equiv> ''patch''"
abbreviation UpdateTypeUnknown :: UpdateType where "UpdateTypeUnknown \<equiv> ''unknown''"

text \<open>
  The advisory signal \<open>ai.AIAnalysis\<close>, and the collaborator behind the interface
  \<open>AIAnalyzer\<close>: its one method takes the module name, the current and latest version
  and the changelog URL, and returns an analysis, or \<open>None\<close> when it returns an error
  (the analyzer of package ai returns a non-nil analysis whenever its error is nil).
\<close>

record AIAnalysis =
  HasBreakingChanges :: bool
  Summary :: string
  Details :: "string list"
  Confidence :: string

type_synonym AIAnalyzer = "string \<Rightarrow> string \<Rightarrow> string \<Rightarrow> string \<Rightarrow> AIAnalysis option"

text \<open>
  The fields of \<open>Checker\<close> that are configuration.  Its HTTP and GitHub clients are
  the world the checker talks to and its cache is mutable state; both are threaded
  separately.
\<close>

record Checker =
  skipPrerelease :: bool
  patchOnly :: bool
  minorOnly :: bool
  ignoreModules :: "string list"
  aiAnalyzer :: "AIAnalyzer option"

text \<open>\<open>Checker.detectUpdateType\<close>\<close>

definition detectUpdateType :: "Version \<Rightarrow> Version \<Rightarrow> UpdateType" where
  "detectUpdateType current latest =
     (let currentSegments = Segments current;
          latestSegments = Segments latest
      in if length currentSegments < 3 \<or> length latestSegments < 3 then UpdateTypeUnknown
         else
           let currentMajor = currentSegments ! 0;
               currentMinor = currentSegments ! 1;
               currentPatch = currentSegments ! 2;
               latestMajor = latestSegments ! 0;
               latestMinor = latestSegments ! 1;
               latestPatch = latestSegments ! 2
           in if latestMajor > currentMajor then UpdateTypeMajor
              else if latestMajor = currentMajor \<and> latestMinor > currentMinor then UpdateTypeMinor
              else if latestMajor = currentMajor \<and> latestMinor = currentMinor
                      \<and> latestPatch > currentPatch then UpdateTypePatch
              else UpdateTypeUnknown)"

text \<open>\<open>Checker.shouldUpdate\<close>\<close>

definition shouldUpdate :: "VersionLib \<Rightarrow> Checker \<Rightarrow> Version \<Rightarrow> Version \<Rightarrow> bool" where
  "shouldUpdate lib c current latest =
     (if GreaterThanOrEqual lib current latest then False
      else
        let currentSegments = Segments current;
            latestSegments = Segments latest
        in if length currentSegments < 3 \<or> length latestSegments < 3 then True
           else if patchOnly c then
             currentSegments ! 0 = latestSegments ! 0 \<and> currentSegments ! 1 = latestSegments ! 1
           else if minorOnly c then currentSegments ! 0 = latestSegments ! 0
           else True)"

text \<open>\<open>Checker.isIgnored\<close>\<close>

fun isIgnoredIn :: "string list \<Rightarrow> string \<Rightarrow> bool" where
  "isIgnoredIn [] moduleName = False"
| "isIgnoredIn (ignored # rest) moduleName =
     (if ignored = moduleName then True else isIgnoredIn rest moduleName)"

definition isIgnored :: "Checker \<Rightarrow> string \<Rightarrow> bool" where
  "isIgnored c moduleName = isIgnoredIn (ignoreModules c) moduleName"

subsection \<open>A concrete ordering for the examples\<close>

text \<open>
  Numeric comparison of the segments, position by position; a missing segment counts as
  zero; and a parser that knows four version strings.  They instantiate the library
  parameter wherever a statement is evaluated on concrete versions.
\<close>

fun compareSegments :: "int list \<Rightarrow> int list \<Rightarrow> int" where
  "compareSegments [] [] = 0"
| "compareSegments (x # xs) [] = (if x > 0 then 1 else if x < 0 then -1 else compareSegments xs [])"
| "compareSegments [] (y # ys) = (if 0 < y then -1 else if y < 0 then 1 else compareSegments [] ys)"
| "compareSegments (x # xs) (y # ys) =
     (if x < y then -1 else if x > y then 1 else compareSegments xs ys)"

definition mkVersion :: "int list \<Rightarrow> string \<Rightarrow> Version" where
  "mkVersion segs s = \<lparr>Segments = segs, Prerelease = [], VString = s\<rparr>"

definition exampleParse :: "string \<Rightarrow> Version option" where
  "exampleParse s =
     (if s = ''5.0.0'' then Some (mkVersion [5, 0, 0] ''5.0.0'')
      else if s = ''6.1.0'' then Some (mkVersion [6, 1, 0] ''6.1.0'')
      else if s = ''1.0.0'' then Some (mkVersion [1, 0, 0] ''1.0.0'')
      else if s = ''1.1.0'' then Some (mkVersion [1, 1, 0] ''1.1.0'')
      else None)"

definition segmentLib :: VersionLib where
  "segmentLib = \<lparr>NewVersion = exampleParse,
                  Compare = (\<lambda>a b. compareSegments (Segments a) (Segments b))\<rparr>"

definition mkChecker :: "bool \<Rightarrow> bool \<Rightarrow> Checker" where
  "mkChecker p m = \<lparr>skipPrerelease = True, patchOnly = p, minorOnly = m, ignoreModules = [],
                    aiAnalyzer = None\<rparr>"

section \<open>Resource-change analysis (package terraform, analyzer.go)\<close>

text \<open>
  \<open>terraform.ResourceChange\<close> is a record of the plan; \<open>version.ResourceChange\<close> is the
  itemized entry of the summary.  Of \<open>PlanResult\<close> only the fields read by the functions
  below are kept.
\<close>

record PlanResourceChange =
  Address :: string
  ResourceType :: string
  Action :: "string list"
  ReplaceTriggers :: "string list"

record PlanResult =
  Success :: bool
  DetailedChanges :: "PlanResourceChange list"

record ResourceChange =
  rcAddress :: string
  rcResourceType :: string
  rcAction :: string
  rcReason :: string

record ResourceChangesSummary =
  HasChanges :: bool
  ResourcesToReplace :: "ResourceChange list"
  ResourcesToDelete :: "ResourceChange list"
  ResourcesToModify :: "ResourceChange list"
  TotalReplace :: int
  TotalDelete :: int
  TotalModify :: int

text \<open>\<open>strings.Join\<close>\<close>

fun Join :: "string list \<Rightarrow> string \<Rightarrow> string" where
  "Join [] sep = []"
| "Join [x] sep = x"
| "Join (x # y # ys) sep = x @ sep @ Join (y # ys) sep"

text \<open>\<open>buildChangeReason\<close>\<close>

definition buildChangeReason :: "PlanResourceChange \<Rightarrow> string" where
  "buildChangeReason change =
     (if length (ReplaceTriggers change) = 0 then ''Module update requires resource replacement''
      else if length (ReplaceTriggers change) = 1 then
        ''Attribute '' @ [CHR 0x27] @ ReplaceTriggers change ! 0 @ [CHR 0x27] @ '' requires replacement''
      else ''Attributes '' @ Join (ReplaceTriggers change) '', '' @ '' require replacement'')"

text \<open>
  The inner loop over the actions of one record: the flags \<open>hasCreate\<close>, \<open>hasDelete\<close>
  and \<open>isUpdate\<close> after the remaining actions.
\<close>

fun scanActions :: "string list \<Rightarrow> bool \<times> bool \<times> bool \<Rightarrow> bool \<times> bool \<times> bool" where
  "scanActions [] flags = flags"
| "scanActions (action # rest) (hasCreate, hasDelete, isUpdate) =
     scanActions rest
       (if action = ''create'' then (True, hasDelete, isUpdate)
        else if action = ''delete'' then (hasCreate, True, isUpdate)
        else if action = ''update'' then (hasCreate, hasDelete, True)
        else (hasCreate, hasDelete, isUpdate))"

text \<open>The body of the loop over \<open>planResult.DetailedChanges\<close>.\<close>

definition analyzeChange :: "ResourceChangesSummary \<Rightarrow> PlanResourceChange \<Rightarrow> ResourceChangesSummary" where
  "analyzeChange summary change =
     (case scanActions (Action change) (False, False, False) of
        (hasCreate, hasDelete, isUpdate) \<Rightarrow>
          let isReplace = (hasCreate \<and> hasDelete);
              isDelete = (\<not> (hasCreate \<and> hasDelete) \<and> hasDelete);
              reason = buildChangeReason change;
              resourceChange = \<lparr>rcAddress = Address change,
                                rcResourceType = ResourceType change,
                                rcAction = Join (Action change) '', '',
                                rcReason = reason\<rparr>
          in if isReplace then
               summary\<lparr>ResourcesToReplace := ResourcesToReplace summary @ [resourceChange],
                       TotalReplace := TotalReplace summary + 1\<rparr>
             else if isDelete then
               summary\<lparr>ResourcesToDelete := ResourcesToDelete summary @ [resourceChange],
                       TotalDelete := TotalDelete summary + 1\<rparr>
             else if isUpdate then
               summary\<lparr>ResourcesToModify := ResourcesToModify summary @ [resourceChange],
                       TotalModify := TotalModify summary + 1\<rparr>
             else summary)"

fun analyzeLoop :: "PlanResourceChange list \<Rightarrow> ResourceChangesSummary \<Rightarrow> ResourceChangesSummary" where
  "analyzeLoop [] summary = summary"
| "analyzeLoop (change # rest) summary = analyzeLoop rest (analyzeChange summary change)"

text \<open>\<open>AnalyzeResourceChanges\<close>; a nil \<open>*PlanResult\<close> is \<open>None\<close>.\<close>

definition AnalyzeResourceChanges :: "PlanResult option \<Rightarrow> ResourceChangesSummary" where
  "AnalyzeResourceChanges planResult =
     (case planResult of
        None \<Rightarrow> \<lparr>HasChanges = False, ResourcesToReplace = [], ResourcesToDelete = [],
                  ResourcesToModify = [], TotalReplace = 0, TotalDelete = 0, TotalModify = 0\<rparr>
      | Some p \<Rightarrow>
          if length (DetailedChanges p) = 0 then
            \<lparr>HasChanges = False, ResourcesToReplace = [], ResourcesToDelete = [],
             ResourcesToModify = [], TotalReplace = 0, TotalDelete = 0, TotalModify = 0\<rparr>
          else
            analyzeLoop (DetailedChanges p)
              \<lparr>HasChanges = True, ResourcesToReplace = [], ResourcesToDelete = [],
               ResourcesToModify = [], TotalReplace = 0, TotalDelete = 0, TotalModify = 0\<rparr>)"

text \<open>\<open>HasCriticalChanges\<close>; a nil summary is \<open>None\<close>.\<close>

definition HasCriticalChanges :: "ResourceChangesSummary option \<Rightarrow> bool" where
  "HasCriticalChanges summary =
     (case summary of None \<Rightarrow> False
      | Some s \<Rightarrow> TotalReplace s > 0 \<or> TotalDelete s > 0)"

text \<open>
  The three buckets as predicates on a plan record, and the itemized entry made from it;
  the statements about the summary are phrased with them.
\<close>

definition isReplaceRecord :: "PlanResourceChange \<Rightarrow> bool" where
  "isReplaceRecord change = (''create'' \<in> set (Action change) \<and> ''delete'' \<in> set (Action change))"

definition isDeleteRecord :: "PlanResourceChange \<Rightarrow> bool" where
  "isDeleteRecord change = (''delete'' \<in> set (Action change) \<and> ''create'' \<notin> set (Action change))"

definition isModifyRecord :: "PlanResourceChange \<Rightarrow> bool" where
  "isModifyRecord change = (''update'' \<in> set (Action change) \<and> ''delete'' \<notin> set (Action change))"

definition itemOf :: "PlanResourceChange \<Rightarrow> ResourceChange" where
  "itemOf change = \<lparr>rcAddress = Address change, rcResourceType = ResourceType change,
                    rcAction = Join (Action change) '', '', rcReason = buildChangeReason change\<rparr>"

definition mkChange :: "string \<Rightarrow> string list \<Rightarrow> PlanResourceChange" where
  "mkChange addr acts = \<lparr>Address = addr, ResourceType = ''aws_instance'', Action = acts,
                          ReplaceTriggers = []\<rparr>"

definition mkPlan :: "PlanResourceChange list \<Rightarrow> PlanResult" where
  "mkPlan chs = \<lparr>Success = True, DetailedChanges = chs\<rparr>"

definition changesOf :: "PlanResult option \<Rightarrow> PlanResourceChange list" where
  "changesOf planResult = (case planResult of None \<Rightarrow> [] | Some p \<Rightarrow> DetailedChanges p)"

section \<open>The repository tag cache (package cache)\<close>

text \<open>
  A \<open>time.Time\<close> is an instant in nanoseconds, a \<open>time.Duration\<close> a signed 64-bit
  count of nanoseconds.  \<open>Time.Sub\<close> saturates at the least and greatest duration, and
  \<open>time.Since t\<close> is \<open>time.Now().Sub(t)\<close>; the reading of the clock is an argument.
  A Go slice that may be nil is an option: \<open>None\<close> is nil.
\<close>

type_synonym Time = int
type_synonym Duration = int

definition minDuration :: Duration where "minDuration = - (2 ^ 63)"
definition maxDuration :: Duration where "maxDuration = 2 ^ 63 - 1"

definition Sub :: "Time \<Rightarrow> Time \<Rightarrow> Duration" where
  "Sub t u = (if t - u > maxDuration then maxDuration
              else if t - u < minDuration then minDuration else t - u)"

definition Since :: "Time \<Rightarrow> Time \<Rightarrow> Duration" where
  "Since t now = Sub now t"

record CacheEntry =
  Repository :: string
  Tags :: "string list option"
  CachedAt :: Time
  TTL :: Duration

record RepositoryCache =
  entries :: "string \<rightharpoonup> CacheEntry"
  cacheDir :: string
  ttl :: Duration
  memoryOnly :: bool

text \<open>\<open>NewMemoryOnly\<close>\<close>

definition NewMemoryOnly :: "Duration \<Rightarrow> RepositoryCache" where
  "NewMemoryOnly t = \<lparr>entries = Map.empty, cacheDir = [], ttl = t, memoryOnly = True\<rparr>"

text \<open>
  \<open>RepositoryCache.Get\<close>.  The method has a pointer receiver, so the model returns the
  cache after the call beside the result \<open>(tags, found)\<close>.
\<close>

definition Get :: "RepositoryCache \<Rightarrow> string \<Rightarrow> Time
    \<Rightarrow> (string list option \<times> bool) \<times> RepositoryCache" where
  "Get c repo now =
     (case entries c repo of
        None \<Rightarrow> ((None, False), c)
      | Some entry \<Rightarrow>
          if Since (CachedAt entry) now > TTL entry then ((None, False), c)
          else ((Tags entry, True), c))"

text \<open>
  \<open>RepositoryCache.Set\<close>.  In persistent mode the method also starts a goroutine that
  writes the map to disk; that write reads the entries and changes none, and is left out.
\<close>

definition Set :: "RepositoryCache \<Rightarrow> string \<Rightarrow> string list option \<Rightarrow> Time \<Rightarrow> RepositoryCache" where
  "Set c repo tags now =
     c\<lparr>entries := (entries c)(repo \<mapsto>
          \<lparr>Repository = repo, Tags = tags, CachedAt = now, TTL = ttl c\<rparr>)\<rparr>"

section \<open>The advisory signal and the display filters (packages ai and cmd)\<close>

text \<open>\<open>shouldDisplayUpdate\<close>\<close>

definition shouldDisplayUpdate :: "UpdateType \<Rightarrow> string \<Rightarrow> bool" where
  "shouldDisplayUpdate updateType filter' =
     (if filter' = ''major-only'' \<or> filter' = ''critical-only'' then updateType = UpdateTypeMajor
      else if filter' = ''minor-and-above'' then
        updateType = UpdateTypeMajor \<or> updateType = UpdateTypeMinor
      else if filter' = ''all'' then True
      else True)"

text \<open>\<open>shouldDisplayAIAnalysis\<close>, with its local map \<open>confidenceLevel\<close>.\<close>

definition confidenceLevel :: "string \<rightharpoonup> int" where
  "confidenceLevel = map_of [(''low'', 1), (''medium'', 2), (''high'', 3)]"

definition shouldDisplayAIAnalysis :: "AIAnalysis option \<Rightarrow> string \<Rightarrow> bool" where
  "shouldDisplayAIAnalysis aiAnalysis minConfidence =
     (case aiAnalysis of
        None \<Rightarrow> True
      | Some a \<Rightarrow>
          let minLevel = (case confidenceLevel minConfidence of Some l \<Rightarrow> l | None \<Rightarrow> 1);
              actualLevel = (case confidenceLevel (Confidence a) of Some l \<Rightarrow> l | None \<Rightarrow> 1)
          in actualLevel \<ge> minLevel)"

text \<open>
  The ordinal of a confidence string as the specification words it: low is 1, medium is
  2, high is 3, and any other string counts as low.
\<close>

definition confidenceOrdinal :: "string \<Rightarrow> int" where
  "confidenceOrdinal s =
     (if s = ''high'' then 3 else if s = ''medium'' then 2 else 1)"

definition mkAnalysis :: "string \<Rightarrow> AIAnalysis" where
  "mkAnalysis conf = \<lparr>HasBreakingChanges = True, Summary = ''summary'', Details = [],
                      Confidence = conf\<rparr>"

section \<open>Schema comparison (package terraform, schema.go)\<close>

text \<open>
  A Go map with string keys is an association list with distinct keys, the entries in
  the order in which a \<open>range\<close> statement of this run visits them; lookups go through
  \<open>map_of\<close>.  Each map below is ranged over once.  The field \<open>Default\<close> of
  \<open>Variable\<close> is read by no function modelled here and is left out.
\<close>

record Variable =
  vType :: string
  vDescription :: string
  vRequired :: bool

record Output =
  oDescription :: string

record ModuleSchema =
  Variables :: "(string \<times> Variable) list"
  Outputs :: "(string \<times> Output) list"

record VariableChange =
  vcName :: string
  vcType :: string
  vcRequired :: bool
  vcDescription :: string

record OutputChange =
  ocName :: string
  ocDescription :: string

record SchemaChanges =
  SchemaHasChanges :: bool
  AddedRequiredVars :: "VariableChange list"
  RemovedVars :: "VariableChange list"
  ChangedVarTypes :: "VariableChange list"
  RemovedOutputs :: "OutputChange list"
  AddedOutputs :: "OutputChange list"

definition wellFormedSchema :: "ModuleSchema \<Rightarrow> bool" where
  "wellFormedSchema s = (distinct (map fst (Variables s)) \<and> distinct (map fst (Outputs s)))"

text \<open>The separator of the format string of a changed type, byte for byte as in the source file.\<close>

definition typeArrow :: string where
  "typeArrow = [CHR 0x20, CHR 0xC3, CHR 0xA2, CHR 0xE2, CHR 0x80, CHR 0xA0, CHR 0xE2, CHR 0x80,
                CHR 0x99, CHR 0x20]"

text \<open>The bodies of the four loops of \<open>compareSchemaStructures\<close>.\<close>

definition checkLatestVariable :: "ModuleSchema \<Rightarrow> SchemaChanges \<Rightarrow> string \<times> Variable \<Rightarrow> SchemaChanges" where
  "checkLatestVariable current changes entry =
     (case entry of (name, latestVar) \<Rightarrow>
        (case map_of (Variables current) name of
           None \<Rightarrow>
             if vRequired latestVar then
               changes\<lparr>AddedRequiredVars := AddedRequiredVars changes @
                          [\<lparr>vcName = name, vcType = vType latestVar, vcRequired = True,
                            vcDescription = vDescription latestVar\<rparr>],
                       SchemaHasChanges := True\<rparr>
             else changes
         | Some currentVar \<Rightarrow>
             if vType currentVar \<noteq> vType latestVar then
               changes\<lparr>ChangedVarTypes := ChangedVarTypes changes @
                          [\<lparr>vcName = name, vcType = vType currentVar @ typeArrow @ vType latestVar,
                            vcRequired = False, vcDescription = vDescription latestVar\<rparr>],
                       SchemaHasChanges := True\<rparr>
             else changes))"

definition checkCurrentVariable :: "ModuleSchema \<Rightarrow> SchemaChanges \<Rightarrow> string \<times> Variable \<Rightarrow> SchemaChanges" where
  "checkCurrentVariable latest changes entry =
     (case entry of (name, currentVar) \<Rightarrow>
        (case map_of (Variables latest) name of
           None \<Rightarrow>
             changes\<lparr>RemovedVars := RemovedVars changes @
                        [\<lparr>vcName = name, vcType = vType currentVar, vcRequired = vRequired currentVar,
                          vcDescription = vDescription currentVar\<rparr>],
                     SchemaHasChanges := True\<rparr>
         | Some _ \<Rightarrow> changes))"

definition checkCurrentOutput :: "ModuleSchema \<Rightarrow> SchemaChanges \<Rightarrow> string \<times> Output \<Rightarrow> SchemaChanges" where
  "checkCurrentOutput latest changes entry =
     (case entry of (name, currentOutput) \<Rightarrow>
        (case map_of (Outputs latest) name of
           None \<Rightarrow>
             changes\<lparr>RemovedOutputs := RemovedOutputs changes @
                        [\<lparr>ocName = name, ocDescription = oDescription currentOutput\<rparr>],
                     SchemaHasChanges := True\<rparr>
         | Some _ \<Rightarrow> changes))"

definition checkLatestOutput :: "ModuleSchema \<Rightarrow> SchemaChanges \<Rightarrow> string \<times> Output \<Rightarrow> SchemaChanges" where
  "checkLatestOutput current changes entry =
     (case entry of (name, latestOutput) \<Rightarrow>
        (case map_of (Outputs current) name of
           None \<Rightarrow>
             changes\<lparr>AddedOutputs := AddedOutputs changes @
                        [\<lparr>ocName = name, ocDescription = oDescription latestOutput\<rparr>]\<rparr>
         | Some _ \<Rightarrow> changes))"

definition noSchemaChanges :: SchemaChanges where
  "noSchemaChanges = \<lparr>SchemaHasChanges = False, AddedRequiredVars = [], RemovedVars = [],
                       ChangedVarTypes = [], RemovedOutputs = [], AddedOutputs = []\<rparr>"

text \<open>\<open>SchemaComparator.compareSchemaStructures\<close>; a nil \<open>*ModuleSchema\<close> is \<open>None\<close>.\<close>

definition compareSchemaStructures :: "ModuleSchema option \<Rightarrow> ModuleSchema option \<Rightarrow> SchemaChanges" where
  "compareSchemaStructures current latest =
     (let changes = noSchemaChanges in
      case current of
        None \<Rightarrow> changes
      | Some cur \<Rightarrow>
         (case latest of
            None \<Rightarrow> changes
          | Some lat \<Rightarrow>
              let changes1 = foldl (checkLatestVariable cur) changes (Variables lat);
                  changes2 = foldl (checkCurrentVariable lat) changes1 (Variables cur);
                  changes3 = foldl (checkCurrentOutput lat) changes2 (Outputs cur);
                  changes4 = foldl (checkLatestOutput cur) changes3 (Outputs lat)
              in changes4))"

text \<open>\<open>HasBreakingSchemaChanges\<close>; a nil \<open>*SchemaChanges\<close> is \<open>None\<close>.\<close>

definition HasBreakingSchemaChanges :: "SchemaChanges option \<Rightarrow> bool" where
  "HasBreakingSchemaChanges changes =
     (case changes of
        None \<Rightarrow> False
      | Some ch \<Rightarrow> length (AddedRequiredVars ch) > 0 \<or> length (RemovedVars ch) > 0
                    \<or> length (ChangedVarTypes ch) > 0 \<or> length (RemovedOutputs ch) > 0)"

subsection \<open>The conditions of the loops, and example snapshots\<close>

text \<open>
  The conditions under which each loop records an entry, as predicates on an entry of the
  map it ranges over, and the record it appends; the lemmas about the loops are phrased
  with them.  \<open>exampleCurrent\<close> and \<open>exampleLatest\<close> are two snapshots with one
  variable and one output of every kind.
\<close>

definition mkVar :: "string \<Rightarrow> bool \<Rightarrow> Variable" where
  "mkVar ty req = \<lparr>vType = ty, vDescription = [], vRequired = req\<rparr>"

definition mkOut :: Output where
  "mkOut = \<lparr>oDescription = []\<rparr>"

definition mkSchema :: "(string \<times> Variable) list \<Rightarrow> (string \<times> Output) list \<Rightarrow> ModuleSchema" where
  "mkSchema vs os = \<lparr>Variables = vs, Outputs = os\<rparr>"

definition addedRequired :: "ModuleSchema \<Rightarrow> string \<times> Variable \<Rightarrow> bool" where
  "addedRequired cur e = (map_of (Variables cur) (fst e) = None \<and> vRequired (snd e))"

definition typeChanged :: "ModuleSchema \<Rightarrow> string \<times> Variable \<Rightarrow> bool" where
  "typeChanged cur e =
     (case map_of (Variables cur) (fst e) of None \<Rightarrow> False
      | Some v \<Rightarrow> vType v \<noteq> vType (snd e))"

definition addedVarChange :: "string \<times> Variable \<Rightarrow> VariableChange" where
  "addedVarChange e = \<lparr>vcName = fst e, vcType = vType (snd e), vcRequired = True,
                        vcDescription = vDescription (snd e)\<rparr>"

definition typeVarChange :: "ModuleSchema \<Rightarrow> string \<times> Variable \<Rightarrow> VariableChange" where
  "typeVarChange cur e =
     \<lparr>vcName = fst e,
      vcType = (case map_of (Variables cur) (fst e) of None \<Rightarrow> [] | Some v \<Rightarrow> vType v)
                 @ typeArrow @ vType (snd e),
      vcRequired = False, vcDescription = vDescription (snd e)\<rparr>"

definition removedVar :: "ModuleSchema \<Rightarrow> string \<times> Variable \<Rightarrow> bool" where
  "removedVar lat e = (map_of (Variables lat) (fst e) = None)"

definition removedVarChange :: "string \<times> Variable \<Rightarrow> VariableChange" where
  "removedVarChange e = \<lparr>vcName = fst e, vcType = vType (snd e), vcRequired = vRequired (snd e),
                          vcDescription = vDescription (snd e)\<rparr>"

definition missingOutput :: "ModuleSchema \<Rightarrow> string \<times> Output \<Rightarrow> bool" where
  "missingOutput other e = (map_of (Outputs other) (fst e) = None)"

definition outputChange :: "string \<times> Output \<Rightarrow> OutputChange" where
  "outputChange e = \<lparr>ocName = fst e, ocDescription = oDescription (snd e)\<rparr>"

definition exampleCurrent :: ModuleSchema where
  "exampleCurrent = mkSchema
     [(''vpc_cidr'', mkVar ''string'' True), (''old'', mkVar ''string'' False),
      (''size'', mkVar ''number'' False)]
     [(''vpc_id'', mkOut), (''arn'', mkOut)]"

definition exampleLatest :: ModuleSchema where
  "exampleLatest = mkSchema
     [(''vpc_cidr'', mkVar ''string'' True), (''availability_zone'', mkVar ''string'' True),
      (''tags'', mkVar ''map'' False), (''size'', mkVar ''string'' False)]
     [(''vpc_id'', mkOut), (''subnet_ids'', mkOut)]"

section \<open>The version resolver (package version, checker.go)\<close>

text \<open>\<open>scanner.SourceType\<close> is a string type with four constants.\<close>

type_synonym SourceType = string

abbreviation SourceTypeRegistry :: SourceType where "SourceTypeRegistry \<equiv> ''registry''"
abbreviation SourceTypeGit :: SourceType where "SourceTypeGit \<equiv> ''git''"
abbreviation SourceTypeLocal :: SourceType where "SourceTypeLocal \<equiv> ''local''"
abbreviation SourceTypeUnknown :: SourceType where "SourceTypeUnknown \<equiv> ''unknown''"

text \<open>\<open>scanner.ModuleInfo\<close>; its field \<open>Version\<close> is \<open>ModVersion\<close> here.\<close>

record ModuleInfo =
  Name :: string
  Source :: string
  ModVersion :: string
  FilePath :: string
  Line :: int
  SourceType :: SourceType

text \<open>
  \<open>UpdateInfo\<close>, the update verdict.  The field \<open>SchemaChanges\<close> has the type
  \<open>interface{}\<close> and holds a \<open>*terraform.SchemaChanges\<close> or nil.
\<close>

record UpdateInfo =
  Module :: ModuleInfo
  CurrentVersion :: string
  LatestVersion :: string
  IsOutdated :: bool
  HasBreakingChange :: bool
  BreakingChangeDetails :: string
  ChangelogURL :: string
  UpdateType :: UpdateType
  ResourceChanges :: "ResourceChangesSummary option"
  SchemaChanges :: "SchemaChanges option"
  AIAnalysis :: "AIAnalysis option"

text \<open>The zero value of \<open>UpdateInfo\<close> with the module set.\<close>

definition newUpdateInfo :: "ModuleInfo \<Rightarrow> string \<Rightarrow> UpdateInfo" where
  "newUpdateInfo module current =
     \<lparr>Module = module, CurrentVersion = current, LatestVersion = [], IsOutdated = False,
      HasBreakingChange = False, BreakingChangeDetails = [], ChangelogURL = [],
      UpdateType = [], ResourceChanges = None, SchemaChanges = None, AIAnalysis = None\<rparr>"

text \<open>The errors a per-module check returns, one constructor for each \<open>fmt.Errorf\<close>.\<close>

datatype CheckError =
    InvalidRegistrySource string
  | CreateRequestFailed
  | QueryRegistryFailed
  | RegistryStatus int
  | DecodeResponseFailed
  | NoVersionsFound
  | NoValidVersionsFound
  | InvalidCurrentVersion
  | CouldNotParseGitHub string
  | ListTagsFailed
  | NoTagsFound
  | NoValidVersionTags

text \<open>
  The world outside the process.  A GET of the registry fails when the request cannot be
  built or sent, or answers with a status and a body that decodes into the version
  strings of each listed module or does not decode.  \<open>ListTags\<close> fails or returns the
  names of the tags.  The two regular expressions of \<open>parseGitSource\<close> and
  \<open>extractGitVersion\<close> are matched by the standard library: \<open>gitSourceSubmatch\<close> and
  \<open>refSubmatch\<close> stand for \<open>FindStringSubmatch\<close> of each.  \<open>TrimSpace\<close> is
  \<open>strings.TrimSpace\<close>; \<open>clock n\<close> is what the \<open>n\<close>-th call of \<open>time.Now\<close> returns;
  \<open>httpGetModule\<close> is the GET of the details of one module version, whose body decodes
  into the declared inputs and outputs.  Within one run every answer is a function of
  the request.
\<close>

datatype RegistryBody = Undecodable | Decoded "string list list"

datatype HttpResult = NewRequestError | DoError | Response int RegistryBody

datatype TagsResult = ListTagsError | TagNames "string list"

record RegistryInput =
  inName :: string
  inType :: string
  inDescription :: string
  inRequired :: bool

record RegistryOutput =
  outName :: string
  outDescription :: string

datatype ModuleBody = UndecodableModule | DecodedModule "RegistryInput list" "RegistryOutput list"

datatype ModuleHttpResult = ModuleRequestError | ModuleDoError | ModuleResponse int ModuleBody

record World =
  versionLib :: VersionLib
  httpGet :: "string \<Rightarrow> HttpResult"
  ListTags :: "string \<Rightarrow> string \<Rightarrow> TagsResult"
  gitSourceSubmatch :: "string \<Rightarrow> string list"
  refSubmatch :: "string \<Rightarrow> string list"
  TrimSpace :: "string \<Rightarrow> string"
  clock :: "nat \<Rightarrow> Time"
  httpGetModule :: "string \<Rightarrow> ModuleHttpResult"

text \<open>The mutable part of a \<open>Checker\<close>: its cache (a pointer that may be nil), and the number
  of clock readings taken so far.\<close>

record CheckerState =
  cache :: "RepositoryCache option"
  clockReads :: nat

text \<open>\<open>strings.TrimPrefix\<close> and \<open>strings.Split\<close> with a one-byte separator.\<close>

definition TrimPrefix :: "string \<Rightarrow> string \<Rightarrow> string" where
  "TrimPrefix s pre = (if take (length pre) s = pre then drop (length pre) s else s)"

fun Split :: "string \<Rightarrow> char \<Rightarrow> string list" where
  "Split [] sep = [[]]"
| "Split (c # cs) sep =
     (if c = sep then [] # Split cs sep
      else (case Split cs sep of [] \<Rightarrow> [[c]] | p # ps \<Rightarrow> (c # p) # ps))"

text \<open>\<open>extractVersionFromConstraint\<close>\<close>

definition extractVersionFromConstraint :: "World \<Rightarrow> string \<Rightarrow> string" where
  "extractVersionFromConstraint w versionConstraint =
     (if versionConstraint = [] then []
      else
        let v1 = TrimSpace w versionConstraint;
            v2 = TrimPrefix v1 ''~>'';
            v3 = TrimPrefix v2 ''>='';
            v4 = TrimPrefix v3 ''<='';
            v5 = TrimPrefix v4 ''='';
            v6 = TrimPrefix v5 ''>'';
            v7 = TrimPrefix v6 ''<''
        in TrimSpace w v7)"

text \<open>
  The loop that parses and filters the version strings; for tags the \<open>v\<close> prefix is
  trimmed first.
\<close>

fun parseVersions :: "VersionLib \<Rightarrow> Checker \<Rightarrow> string list \<Rightarrow> Version list" where
  "parseVersions l c [] = []"
| "parseVersions l c (v # rest) =
     (case NewVersion l v of
        None \<Rightarrow> parseVersions l c rest
      | Some ver \<Rightarrow>
          if skipPrerelease c \<and> Prerelease ver \<noteq> [] then parseVersions l c rest
          else ver # parseVersions l c rest)"

fun parseTagVersions :: "VersionLib \<Rightarrow> Checker \<Rightarrow> string list \<Rightarrow> Version list" where
  "parseTagVersions l c [] = []"
| "parseTagVersions l c (tagName # rest) =
     (let cleanTagName = TrimPrefix tagName ''v'' in
      case NewVersion l cleanTagName of
        None \<Rightarrow> parseTagVersions l c rest
      | Some ver \<Rightarrow>
          if skipPrerelease c \<and> Prerelease ver \<noteq> [] then parseTagVersions l c rest
          else ver # parseTagVersions l c rest)"

text \<open>
  \<open>sort.Sort(version.Collection(versions))\<close>, as the insertion sort the standard library
  runs on a short slice: each element moves left while it is \<open>LessThan\<close> its left
  neighbour.  \<open>insertLeft\<close> works on the sorted prefix in reverse.  No statement below
  depends on the order among versions that compare equal.
\<close>

fun insertLeft :: "(Version \<Rightarrow> Version \<Rightarrow> bool) \<Rightarrow> Version \<Rightarrow> Version list \<Rightarrow> Version list" where
  "insertLeft lt x [] = [x]"
| "insertLeft lt x (y # rs) = (if lt x y then y # insertLeft lt x rs else x # y # rs)"

definition sortCollection :: "VersionLib \<Rightarrow> Version list \<Rightarrow> Version list" where
  "sortCollection l versions = rev (foldl (\<lambda>rs x. insertLeft (LessThan l) x rs) [] versions)"

text \<open>The assignments after \<open>shouldUpdate\<close> that both check functions share, with the
  message of a major upgrade.\<close>

definition majorUpgradeDetails :: "Version \<Rightarrow> Version \<Rightarrow> string" where
  "majorUpgradeDetails current latest =
     ''Major version upgrade from '' @ VString current @ '' to '' @ VString latest
       @ '' may contain breaking changes. Please review the changelog carefully.''"

definition classifyUpdate :: "World \<Rightarrow> Checker \<Rightarrow> Version \<Rightarrow> Version \<Rightarrow> UpdateInfo \<Rightarrow> UpdateInfo" where
  "classifyUpdate w c currentVersion latestVersion updateInfo =
     (let u1 = updateInfo\<lparr>IsOutdated := shouldUpdate (versionLib w) c currentVersion latestVersion\<rparr>;
          u2 = u1\<lparr>UpdateType := detectUpdateType currentVersion latestVersion\<rparr>;
          u3 = u2\<lparr>HasBreakingChange := (UpdateType u2 = UpdateTypeMajor)\<rparr>
      in if HasBreakingChange u3 then
           u3\<lparr>BreakingChangeDetails := majorUpgradeDetails currentVersion latestVersion\<rparr>
         else u3)"

text \<open>The URL that \<open>checkRegistryModule\<close> formats for the registry query.\<close>

definition registryVersionsURL :: "string \<Rightarrow> string \<Rightarrow> string \<Rightarrow> string" where
  "registryVersionsURL namespace name provider =
     ''https://registry.terraform.io/v1/modules/'' @ namespace @ ''/'' @ name
       @ ''/'' @ provider @ ''/versions''"

text \<open>\<open>Checker.checkRegistryModule\<close>, returning the pair \<open>(UpdateInfo, error)\<close>.\<close>

definition checkRegistryModule :: "World \<Rightarrow> Checker \<Rightarrow> ModuleInfo \<Rightarrow> UpdateInfo \<times> CheckError option" where
  "checkRegistryModule w c module =
     (let updateInfo = newUpdateInfo module (extractVersionFromConstraint w (ModVersion module));
          parts = Split (Source module) (CHR ''/'')
      in if length parts < 3 then (updateInfo, Some (InvalidRegistrySource (Source module)))
         else
           let namespace = parts ! 0;
               name = parts ! 1;
               provider = parts ! 2;
               url = registryVersionsURL namespace name provider
           in case httpGet w url of
                NewRequestError \<Rightarrow> (updateInfo, Some CreateRequestFailed)
              | DoError \<Rightarrow> (updateInfo, Some QueryRegistryFailed)
              | Response status body \<Rightarrow>
                  if status \<noteq> 200 then (updateInfo, Some (RegistryStatus status))
                  else
                    (case body of
                       Undecodable \<Rightarrow> (updateInfo, Some DecodeResponseFailed)
                     | Decoded [] \<Rightarrow> (updateInfo, Some NoVersionsFound)
                     | Decoded (module0 # _) \<Rightarrow>
                         if length module0 = 0 then (updateInfo, Some NoVersionsFound)
                         else
                           let versions = parseVersions (versionLib w) c module0
                           in if length versions = 0 then (updateInfo, Some NoValidVersionsFound)
                              else
                                let sorted = sortCollection (versionLib w) versions;
                                    latestVersion = sorted ! (length sorted - 1);
                                    u1 = updateInfo\<lparr>LatestVersion := VString latestVersion\<rparr>;
                                    changelog = ''https://registry.terraform.io/modules/'' @ namespace
                                       @ ''/'' @ name @ ''/'' @ provider @ ''/'' @ VString latestVersion
                                in if ModVersion module \<noteq> [] then
                                     (let cleanVersion = extractVersionFromConstraint w (ModVersion module)
                                      in case NewVersion (versionLib w) cleanVersion of
                                           None \<Rightarrow> (u1, Some InvalidCurrentVersion)
                                         | Some currentVersion \<Rightarrow>
                                             ((classifyUpdate w c currentVersion latestVersion u1)
                                                \<lparr>ChangelogURL := changelog\<rparr>, None))
                                   else
                                     (u1\<lparr>IsOutdated := False, UpdateType := UpdateTypeUnknown,
                                         LatestVersion := ''latest'', ChangelogURL := changelog\<rparr>,
                                      None)))"

text \<open>\<open>Checker.parseGitSource\<close> and \<open>Checker.extractGitVersion\<close>\<close>

definition parseGitSource :: "World \<Rightarrow> string \<Rightarrow> string \<times> string \<times> CheckError option" where
  "parseGitSource w source =
     (let matches = gitSourceSubmatch w source
      in if length matches < 3 then ([], [], Some (CouldNotParseGitHub source))
         else (matches ! 1, matches ! 2, None))"

definition extractGitVersion :: "World \<Rightarrow> string \<Rightarrow> string" where
  "extractGitVersion w source =
     (let matches = refSubmatch w source
      in if length matches \<ge> 2 then matches ! 1 else [])"

text \<open>
  \<open>Checker.checkGitModule\<close> in three parts: the lookup in the cache, the fetch from the
  GitHub API on a miss, and the verdict from the tag names.  \<open>Get\<close> reads the clock
  only when the key has an entry.
\<close>

definition lookupTags :: "World \<Rightarrow> CheckerState \<Rightarrow> string \<Rightarrow> string list option \<times> CheckerState" where
  "lookupTags w st repoKey =
     (case cache st of
        None \<Rightarrow> (None, st)
      | Some ch \<Rightarrow>
          (case Get ch repoKey (clock w (clockReads st)) of
             ((cachedTags, found), ch') \<Rightarrow>
               (if found then cachedTags else None,
                st\<lparr>cache := Some ch',
                   clockReads := (if entries ch repoKey = None then clockReads st
                                  else clockReads st + 1)\<rparr>)))"

definition fetchTags :: "World \<Rightarrow> CheckerState \<Rightarrow> string \<Rightarrow> string \<Rightarrow> string
    \<Rightarrow> (CheckError + string list) \<times> CheckerState" where
  "fetchTags w st owner repo repoKey =
     (case ListTags w owner repo of
        ListTagsError \<Rightarrow> (Inl ListTagsFailed, st)
      | TagNames tags \<Rightarrow>
          if length tags = 0 then (Inl NoTagsFound, st)
          else
            (Inr tags,
             (case cache st of
                None \<Rightarrow> st
              | Some ch \<Rightarrow>
                  st\<lparr>cache := Some (Set ch repoKey (Some tags) (clock w (clockReads st))),
                     clockReads := clockReads st + 1\<rparr>)))"

definition gitVerdict :: "World \<Rightarrow> Checker \<Rightarrow> ModuleInfo \<Rightarrow> UpdateInfo \<Rightarrow> string \<Rightarrow> string
    \<Rightarrow> string list \<Rightarrow> UpdateInfo \<times> CheckError option" where
  "gitVerdict w c module updateInfo owner repo tagNames =
     (let versions = parseTagVersions (versionLib w) c tagNames
      in if length versions = 0 then (updateInfo, Some NoValidVersionTags)
         else
           let sorted = sortCollection (versionLib w) versions;
               latestVersion = sorted ! (length sorted - 1);
               u1 = updateInfo\<lparr>LatestVersion := VString latestVersion\<rparr>;
               currentVersion = extractGitVersion w (Source module);
               u2 = (if currentVersion \<noteq> [] then
                       (let u = u1\<lparr>CurrentVersion := currentVersion\<rparr>
                        in case NewVersion (versionLib w) (TrimPrefix currentVersion ''v'') of
                             Some current \<Rightarrow> classifyUpdate w c current latestVersion u
                           | None \<Rightarrow> u)
                     else
                       u1\<lparr>IsOutdated := False, UpdateType := UpdateTypeUnknown,
                          CurrentVersion := ''default branch'', LatestVersion := ''latest''\<rparr>)
           in (u2\<lparr>ChangelogURL := ''https://github.com/'' @ owner @ ''/'' @ repo
                       @ ''/releases/tag/v'' @ VString latestVersion\<rparr>, None))"

definition checkGitModule :: "World \<Rightarrow> Checker \<Rightarrow> CheckerState \<Rightarrow> ModuleInfo
    \<Rightarrow> (UpdateInfo \<times> CheckError option) \<times> CheckerState" where
  "checkGitModule w c st module =
     (let updateInfo = newUpdateInfo module (ModVersion module)
      in case parseGitSource w (Source module) of
           (owner, repo, Some err) \<Rightarrow> ((updateInfo, Some err), st)
         | (owner, repo, None) \<Rightarrow>
             let repoKey = owner @ ''/'' @ repo
             in case lookupTags w st repoKey of
                  (Some tagNames, st1) \<Rightarrow>
                    (gitVerdict w c module updateInfo owner repo tagNames, st1)
                | (None, st1) \<Rightarrow>
                    (case fetchTags w st1 owner repo repoKey of
                       (Inl err, st2) \<Rightarrow> ((updateInfo, Some err), st2)
                     | (Inr tagNames, st2) \<Rightarrow>
                         (gitVerdict w c module updateInfo owner repo tagNames, st2)))"

text \<open>
  The body of the loop of \<open>Checker.Check\<close>: the list of updates and the state after one
  module.
\<close>

definition attachAnalysis :: "Checker \<Rightarrow> ModuleInfo \<Rightarrow> UpdateInfo \<Rightarrow> UpdateInfo" where
  "attachAnalysis c module updateInfo =
     (case aiAnalyzer c of
        None \<Rightarrow> updateInfo
      | Some analyze \<Rightarrow>
          (case analyze (Name module) (CurrentVersion updateInfo) (LatestVersion updateInfo)
                  (ChangelogURL updateInfo) of
             None \<Rightarrow> updateInfo
           | Some aiAnalysis \<Rightarrow> updateInfo\<lparr>AIAnalysis := Some aiAnalysis\<rparr>))"

definition checkModule :: "World \<Rightarrow> Checker \<Rightarrow> CheckerState \<Rightarrow> ModuleInfo
    \<Rightarrow> ((UpdateInfo \<times> CheckError option) \<times> CheckerState) option" where
  "checkModule w c st module =
     (if SourceType module = SourceTypeRegistry then Some (checkRegistryModule w c module, st)
      else if SourceType module = SourceTypeGit then Some (checkGitModule w c st module)
      else None)"

definition CheckStep :: "World \<Rightarrow> Checker \<Rightarrow> UpdateInfo list \<times> CheckerState \<Rightarrow> ModuleInfo
    \<Rightarrow> UpdateInfo list \<times> CheckerState" where
  "CheckStep w c acc module =
     (case acc of (updates, st) \<Rightarrow>
        if isIgnored c (Name module) then (updates, st)
        else if SourceType module = SourceTypeLocal then (updates, st)
        else
          (case checkModule w c st module of
             None \<Rightarrow> (updates, st)
           | Some ((updateInfo, err), st') \<Rightarrow>
               if err \<noteq> None then (updates, st')
               else if IsOutdated updateInfo then
                 (updates @ [attachAnalysis c module updateInfo], st')
               else (updates, st')))"

fun CheckLoop :: "World \<Rightarrow> Checker \<Rightarrow> ModuleInfo list \<Rightarrow> UpdateInfo list \<times> CheckerState
    \<Rightarrow> UpdateInfo list \<times> CheckerState" where
  "CheckLoop w c [] acc = acc"
| "CheckLoop w c (module # rest) acc = CheckLoop w c rest (CheckStep w c acc module)"

text \<open>\<open>Checker.Check\<close>: the pair \<open>([]UpdateInfo, error)\<close> it returns, and the state after it.\<close>

definition Check :: "World \<Rightarrow> Checker \<Rightarrow> CheckerState \<Rightarrow> ModuleInfo list
    \<Rightarrow> (UpdateInfo list \<times> CheckError option) \<times> CheckerState" where
  "Check w c st modules =
     (case CheckLoop w c modules ([], st) of (updates, st') \<Rightarrow> ((updates, None), st'))"

section \<open>The aggregation of the breaking-change signals (package cmd)\<close>

text \<open>
  \<open>SchemaComparator.fetchRegistrySchema\<close>.  Its loop over the source cuts the namespace
  at the first slash and the name at the second, and drops every later slash; it ranges
  over the runes of the source, which for a source in UTF-8 are cut at the same places as
  its bytes.  The result is \<open>None\<close> when the method returns an error.  A key that is
  listed twice keeps the later value, as an assignment to a map entry does.
\<close>

fun splitSource :: "string \<Rightarrow> nat \<Rightarrow> string \<Rightarrow> string \<Rightarrow> string \<Rightarrow> string \<times> string \<times> string" where
  "splitSource [] slashCount namespace name part = (namespace, name, part)"
| "splitSource (r # rs) slashCount namespace name part =
     (if r = CHR ''/'' then
        (if slashCount + 1 = 1 then splitSource rs (slashCount + 1) part name []
         else if slashCount + 1 = 2 then splitSource rs (slashCount + 1) namespace part []
         else splitSource rs (slashCount + 1) namespace name part)
      else splitSource rs slashCount namespace name (part @ [r]))"

definition schemaOfBody :: "RegistryInput list \<Rightarrow> RegistryOutput list \<Rightarrow> ModuleSchema" where
  "schemaOfBody inputs outputs =
     \<lparr>Variables = foldl (\<lambda>vars input.
                    AList.update (inName input)
                      \<lparr>vType = inType input, vDescription = inDescription input,
                       vRequired = inRequired input\<rparr> vars) [] inputs,
      Outputs = foldl (\<lambda>outs output.
                    AList.update (outName output) \<lparr>oDescription = outDescription output\<rparr> outs)
                  [] outputs\<rparr>"

definition fetchRegistrySchema :: "World \<Rightarrow> string \<Rightarrow> string \<Rightarrow> ModuleSchema option" where
  "fetchRegistrySchema w source version =
     (case splitSource source 0 [] [] [] of
        (namespace, name, provider) \<Rightarrow>
          if namespace = [] \<or> name = [] \<or> provider = [] then None
          else
            let url = ''https://registry.terraform.io/v1/modules/'' @ namespace @ ''/'' @ name
                        @ ''/'' @ provider @ ''/'' @ version
            in case httpGetModule w url of
                 ModuleRequestError \<Rightarrow> None
               | ModuleDoError \<Rightarrow> None
               | ModuleResponse status body \<Rightarrow>
                   if status \<noteq> 200 then None
                   else
                     (case body of
                        UndecodableModule \<Rightarrow> None
                      | DecodedModule inputs outputs \<Rightarrow> Some (schemaOfBody inputs outputs)))"

text \<open>\<open>SchemaComparator.CompareSchemas\<close>; the error it returns is always nil.\<close>

definition CompareSchemas :: "World \<Rightarrow> ModuleInfo \<Rightarrow> string \<Rightarrow> string \<Rightarrow> SchemaChanges option" where
  "CompareSchemas w module currentVersion latestVersion =
     (if SourceType module \<noteq> SourceTypeRegistry then None
      else
        (case fetchRegistrySchema w (Source module) currentVersion of
           None \<Rightarrow> None
         | Some currentSchema \<Rightarrow>
             (case fetchRegistrySchema w (Source module) latestVersion of
                None \<Rightarrow> None
              | Some latestSchema \<Rightarrow>
                  Some (compareSchemaStructures (Some currentSchema) (Some latestSchema)))))"

text \<open>
  What the two methods of a \<open>terraform.Runner\<close> return in one iteration: whether
  \<open>Init\<close> returns an error, and the result and the error flag of \<open>Plan\<close>.
\<close>

record Runner =
  InitFails :: bool
  PlanResultOf :: "PlanResult option"
  PlanFails :: bool

text \<open>The two steps of the loop body over the updates, up to the creation of the pull request.\<close>

definition applySchemaSignal :: "World \<Rightarrow> UpdateInfo \<Rightarrow> UpdateInfo" where
  "applySchemaSignal w update =
     (if CurrentVersion update \<noteq> [] \<and> LatestVersion update \<noteq> [] then
        (case CompareSchemas w (Module update) (CurrentVersion update) (LatestVersion update) of
           None \<Rightarrow> update
         | Some schemaChanges \<Rightarrow>
             let u = update\<lparr>SchemaChanges := Some schemaChanges\<rparr>
             in if HasBreakingSchemaChanges (Some schemaChanges) then
                  u\<lparr>HasBreakingChange := True,
                    BreakingChangeDetails :=
                      (if BreakingChangeDetails u = [] then
                         ''This update has breaking API changes (added required variables, removed variables/outputs, or changed types).''
                       else BreakingChangeDetails u @ '' This update also has breaking API changes.'')\<rparr>
                else u)
      else update)"

definition applyPlanSignal :: "Runner option \<Rightarrow> bool \<Rightarrow> UpdateInfo \<Rightarrow> UpdateInfo \<times> PlanResult option" where
  "applyPlanSignal runner skipPlan update =
     (case runner of
        None \<Rightarrow> (update, None)
      | Some r \<Rightarrow>
          if skipPlan then (update, None)
          else if InitFails r then (update, None)
          else if PlanFails r then (update, PlanResultOf r)
          else
            (case PlanResultOf r of
               None \<Rightarrow> (update, None)
             | Some p \<Rightarrow>
                 if Success p then
                   (let u = update\<lparr>ResourceChanges := Some (AnalyzeResourceChanges (Some p))\<rparr>
                    in if HasCriticalChanges (ResourceChanges u) then
                         (u\<lparr>HasBreakingChange := True,
                            BreakingChangeDetails :=
                              (if BreakingChangeDetails u = [] then
                                 ''This update will cause resource replacements or deletions. Please review carefully.''
                               else BreakingChangeDetails u
                                      @ '' Additionally, this update will cause resource replacements or deletions.'')\<rparr>,
                          Some p)
                       else (u, Some p))
                 else (update, Some p)))"

definition processUpdate :: "World \<Rightarrow> Runner option \<Rightarrow> bool \<Rightarrow> UpdateInfo \<Rightarrow> UpdateInfo \<times> PlanResult option" where
  "processUpdate w runner skipPlan update = applyPlanSignal runner skipPlan (applySchemaSignal w update)"

subsection \<open>An example world and batch\<close>

text \<open>
  A registry that knows four modules (one with versions, one that answers 404, one whose
  versions do not parse, one with an empty list), a GitHub with one repository, and
  matchers that recognise the one git source of the batch.  The batch has a module for
  each failure of one dependency, followed by two modules that are outdated;
  \<open>vpcUpdate\<close> and \<open>consulUpdate\<close> are the verdicts of those two.
\<close>

definition isAsciiSpace :: "char \<Rightarrow> bool" where
  "isAsciiSpace ch = (ch = CHR 0x20 \<or> ch = CHR 0x09 \<or> ch = CHR 0x0A \<or> ch = CHR 0x0B
                      \<or> ch = CHR 0x0C \<or> ch = CHR 0x0D)"

definition trimAsciiSpace :: "string \<Rightarrow> string" where
  "trimAsciiSpace s = rev (dropWhile isAsciiSpace (rev (dropWhile isAsciiSpace s)))"

definition exampleHttp :: "string \<Rightarrow> HttpResult" where
  "exampleHttp url =
     (if url = ''https://registry.terraform.io/v1/modules/terraform-aws-modules/vpc/aws/versions''
        then Response 200 (Decoded [[''6.1.0'', ''5.0.0'', ''junk'']])
      else if url = ''https://registry.terraform.io/v1/modules/acme/gone/aws/versions''
        then Response 404 Undecodable
      else if url = ''https://registry.terraform.io/v1/modules/acme/junk/aws/versions''
        then Response 200 (Decoded [[''junk'', ''rubbish'']])
      else if url = ''https://registry.terraform.io/v1/modules/acme/none/aws/versions''
        then Response 200 (Decoded [])
      else DoError)"

definition mkInput :: "string \<Rightarrow> string \<Rightarrow> bool \<Rightarrow> RegistryInput" where
  "mkInput n ty req = \<lparr>inName = n, inType = ty, inDescription = [], inRequired = req\<rparr>"

definition mkOutput :: "string \<Rightarrow> RegistryOutput" where
  "mkOutput n = \<lparr>outName = n, outDescription = []\<rparr>"

definition exampleHttpModule :: "string \<Rightarrow> ModuleHttpResult" where
  "exampleHttpModule url =
     (if url = ''https://registry.terraform.io/v1/modules/terraform-aws-modules/vpc/aws/5.0.0''
        then ModuleResponse 200 (DecodedModule
               [mkInput ''vpc_cidr'' ''string'' True, mkInput ''old'' ''string'' False,
                mkInput ''size'' ''number'' False]
               [mkOutput ''vpc_id'', mkOutput ''arn''])
      else if url = ''https://registry.terraform.io/v1/modules/terraform-aws-modules/vpc/aws/6.1.0''
        then ModuleResponse 200 (DecodedModule
               [mkInput ''vpc_cidr'' ''string'' True, mkInput ''availability_zone'' ''string'' True,
                mkInput ''tags'' ''map'' False, mkInput ''size'' ''string'' False]
               [mkOutput ''vpc_id'', mkOutput ''subnet_ids''])
      else ModuleResponse 404 UndecodableModule)"

definition consulSource :: string where
  "consulSource = ''git::https://github.com/hashicorp/consul.git?ref=v1.0.0''"

definition exampleWorld :: World where
  "exampleWorld =
     \<lparr>versionLib = segmentLib,
      httpGet = exampleHttp,
      ListTags = (\<lambda>owner repo. if owner = ''hashicorp'' \<and> repo = ''consul''
                                 then TagNames [''v1.1.0'', ''v1.0.0'', ''nightly''] else ListTagsError),
      gitSourceSubmatch = (\<lambda>s. if s = consulSource
                                 then [''github.com/hashicorp/consul'', ''hashicorp'', ''consul''] else []),
      refSubmatch = (\<lambda>s. if s = consulSource then [''?ref=v1.0.0'', ''v1.0.0''] else []),
      TrimSpace = trimAsciiSpace,
      clock = (\<lambda>n. int n),
      httpGetModule = exampleHttpModule\<rparr>"

definition mkModule :: "string \<Rightarrow> string \<Rightarrow> string \<Rightarrow> SourceType \<Rightarrow> ModuleInfo" where
  "mkModule n src v ty = \<lparr>Name = n, Source = src, ModVersion = v, FilePath = ''main.tf'',
                           Line = 1, SourceType = ty\<rparr>"

definition exampleBatch :: "ModuleInfo list" where
  "exampleBatch =
     [mkModule ''malformed'' ''vpc'' ''1.0.0'' SourceTypeRegistry,
      mkModule ''gone'' ''acme/gone/aws'' ''1.0.0'' SourceTypeRegistry,
      mkModule ''junk'' ''acme/junk/aws'' ''1.0.0'' SourceTypeRegistry,
      mkModule ''none'' ''acme/none/aws'' ''1.0.0'' SourceTypeRegistry,
      mkModule ''unparseable'' ''terraform-aws-modules/vpc/aws'' ''latest'' SourceTypeRegistry,
      mkModule ''elsewhere'' ''git::https://example.com/repo.git'' [] SourceTypeGit,
      mkModule ''vpc'' ''terraform-aws-modules/vpc/aws'' ''~> 5.0.0'' SourceTypeRegistry,
      mkModule ''consul'' consulSource [] SourceTypeGit]"

definition exampleState :: CheckerState where
  "exampleState = \<lparr>cache = Some (NewMemoryOnly 86400000000000), clockReads = 0\<rparr>"

definition exampleChecker :: Checker where
  "exampleChecker = \<lparr>skipPrerelease = True, patchOnly = False, minorOnly = False,
                      ignoreModules = [''ignored''],
                      aiAnalyzer = Some (\<lambda>n cur lat url. if n = ''vpc'' then Some (mkAnalysis ''low'') else None)\<rparr>"

definition replaceRunner :: Runner where
  "replaceRunner = \<lparr>InitFails = False,
                     PlanResultOf = Some (mkPlan [mkChange ''aws_instance.web'' [''delete'', ''create'']]),
                     PlanFails = False\<rparr>"

subsection \<open>The verdict of the resolver, and the sentences of the signals\<close>

text \<open>
  What holds of every verdict as the resolver returns it: the breaking flag is the major
  signal alone, the reason text is empty unless the flag is set, and no schema change
  set or resource summary is attached yet.  The four constants are the string literals
  of the aggregation loop.
\<close>

definition resolverVerdict :: "UpdateInfo \<Rightarrow> bool" where
  "resolverVerdict u =
     (HasBreakingChange u = (UpdateType u = UpdateTypeMajor)
      \<and> (BreakingChangeDetails u = []) = (\<not> HasBreakingChange u)
      \<and> SchemaChanges u = None \<and> ResourceChanges u = None)"

definition schemaSentence :: string where
  "schemaSentence = ''This update has breaking API changes (added required variables, removed variables/outputs, or changed types).''"

definition schemaSentenceAlso :: string where
  "schemaSentenceAlso = '' This update also has breaking API changes.''"

definition planSentence :: string where
  "planSentence = ''This update will cause resource replacements or deletions. Please review carefully.''"

definition planSentenceAlso :: string where
  "planSentenceAlso = '' Additionally, this update will cause resource replacements or deletions.''"

definition vpcUpdate :: UpdateInfo where
  "vpcUpdate =
     \<lparr>Module = mkModule ''vpc'' ''terraform-aws-modules/vpc/aws'' ''~> 5.0.0'' SourceTypeRegistry,
      CurrentVersion = ''5.0.0'', LatestVersion = ''6.1.0'', IsOutdated = True,
      HasBreakingChange = True,
      BreakingChangeDetails = majorUpgradeDetails (mkVersion [5, 0, 0] ''5.0.0'') (mkVersion [6, 1, 0] ''6.1.0''),
      ChangelogURL = ''https://registry.terraform.io/modules/terraform-aws-modules/vpc/aws/6.1.0'',
      UpdateType = UpdateTypeMajor, ResourceChanges = None, SchemaChanges = None,
      AIAnalysis = Some (mkAnalysis ''low'')\<rparr>"

definition consulUpdate :: UpdateInfo where
  "consulUpdate =
     \<lparr>Module = mkModule ''consul'' consulSource [] SourceTypeGit,
      CurrentVersion = ''v1.0.0'', LatestVersion = ''1.1.0'', IsOutdated = True,
      HasBreakingChange = False, BreakingChangeDetails = [],
      ChangelogURL = ''https://github.com/hashicorp/consul/releases/tag/v1.1.0'',
      UpdateType = UpdateTypeMinor, ResourceChanges = None, SchemaChanges = None,
      AIAnalysis = None\<rparr>"

text \<open>
  A second world, in which the registry also knows a module whose version 1.1.0 drops an
  optional variable of version 1.0.0, with the verdict of that module; and a runner whose
  plan only modifies a resource.
\<close>

definition netWorld :: World where
  "netWorld = exampleWorld
     \<lparr>httpGet := (\<lambda>url.
        if url = ''https://registry.terraform.io/v1/modules/acme/net/aws/versions''
        then Response 200 (Decoded [[''1.0.0'', ''1.1.0'']]) else exampleHttp url),
      httpGetModule := (\<lambda>url.
        if url = ''https://registry.terraform.io/v1/modules/acme/net/aws/1.0.0''
        then ModuleResponse 200 (DecodedModule
               [mkInput ''cidr'' ''string'' True, mkInput ''legacy'' ''string'' False]
               [mkOutput ''id''])
        else if url = ''https://registry.terraform.io/v1/modules/acme/net/aws/1.1.0''
        then ModuleResponse 200 (DecodedModule [mkInput ''cidr'' ''string'' True] [mkOutput ''id''])
        else exampleHttpModule url)\<rparr>"

definition netModule :: ModuleInfo where
  "netModule = mkModule ''net'' ''acme/net/aws'' ''1.0.0'' SourceTypeRegistry"

definition netUpdate :: UpdateInfo where
  "netUpdate =
     \<lparr>Module = netModule,
      CurrentVersion = ''1.0.0'', LatestVersion = ''1.1.0'', IsOutdated = True,
      HasBreakingChange = False, BreakingChangeDetails = [],
      ChangelogURL = ''https://registry.terraform.io/modules/acme/net/aws/1.1.0'',
      UpdateType = UpdateTypeMinor, ResourceChanges = None, SchemaChanges = None,
      AIAnalysis = None\<rparr>"

definition modifyRunner :: Runner where
  "modifyRunner = \<lparr>InitFails = False,
                    PlanResultOf = Some (mkPlan [mkChange ''aws_security_group.main'' [''update'']]),
                    PlanFails = False\<rparr>"

section \<open>Update-type classification\<close>

text \<open>
  C2.  For two versions with at least three segments each, the update type is major when
  the latest major component is greater; minor when the majors are equal and the latest
  minor is greater; patch when major and minor are equal and the latest patch is greater;
  unknown in every other case, in particular when the three components are equal.  With
  fewer than three segments on either side the update type is unknown.
\<close>

theorem detectUpdateType_classification:
  fixes current latest :: Version
  defines "cs \<equiv> Segments current" and "ls \<equiv> Segments latest"
  shows "(length cs \<ge> 3 \<and> length ls \<ge> 3 \<longrightarrow>
            (ls ! 0 > cs ! 0 \<longrightarrow> detectUpdateType current latest = UpdateTypeMajor)
          \<and> (ls ! 0 = cs ! 0 \<and> ls ! 1 > cs ! 1 \<longrightarrow>
                detectUpdateType current latest = UpdateTypeMinor)
          \<and> (ls ! 0 = cs ! 0 \<and> ls ! 1 = cs ! 1 \<and> ls ! 2 > cs ! 2 \<longrightarrow>
                detectUpdateType current latest = UpdateTypePatch)
          \<and> (\<not> ls ! 0 > cs ! 0 \<and> \<not> (ls ! 0 = cs ! 0 \<and> ls ! 1 > cs ! 1)
               \<and> \<not> (ls ! 0 = cs ! 0 \<and> ls ! 1 = cs ! 1 \<and> ls ! 2 > cs ! 2) \<longrightarrow>
                detectUpdateType current latest = UpdateTypeUnknown)
          \<and> (ls ! 0 = cs ! 0 \<and> ls ! 1 = cs ! 1 \<and> ls ! 2 = cs ! 2 \<longrightarrow>
                detectUpdateType current latest = UpdateTypeUnknown))
       \<and> (length cs < 3 \<or> length ls < 3 \<longrightarrow>
            detectUpdateType current latest = UpdateTypeUnknown)"
  unfolding cs_def ls_def detectUpdateType_def Let_def by auto

theorem detectUpdateType_classification_witness:
  "detectUpdateType (mkVersion [4, 0, 0] ''4.0.0'') (mkVersion [5, 0, 0] ''5.0.0'') = UpdateTypeMajor
   \<and> detectUpdateType (mkVersion [5, 0, 0] ''5.0.0'') (mkVersion [5, 1, 0] ''5.1.0'') = UpdateTypeMinor
   \<and> detectUpdateType (mkVersion [5, 1, 0] ''5.1.0'') (mkVersion [5, 1, 1] ''5.1.1'') = UpdateTypePatch
   \<and> detectUpdateType (mkVersion [5, 1, 1] ''5.1.1'') (mkVersion [5, 1, 1] ''5.1.1'') = UpdateTypeUnknown
   \<and> detectUpdateType (mkVersion [5, 2, 0] ''5.2.0'') (mkVersion [5, 1, 9] ''5.1.9'') = UpdateTypeUnknown
   \<and> detectUpdateType (mkVersion [5, 1] ''5.1'') (mkVersion [6, 0, 0] ''6.0.0'') = UpdateTypeUnknown"
  using detectUpdateType_classification [of "mkVersion [4, 0, 0] ''4.0.0''" "mkVersion [5, 0, 0] ''5.0.0''"]
        detectUpdateType_classification [of "mkVersion [5, 0, 0] ''5.0.0''" "mkVersion [5, 1, 0] ''5.1.0''"]
        detectUpdateType_classification [of "mkVersion [5, 1, 0] ''5.1.0''" "mkVersion [5, 1, 1] ''5.1.1''"]
        detectUpdateType_classification [of "mkVersion [5, 1, 1] ''5.1.1''" "mkVersion [5, 1, 1] ''5.1.1''"]
        detectUpdateType_classification [of "mkVersion [5, 2, 0] ''5.2.0''" "mkVersion [5, 1, 9] ''5.1.9''"]
        detectUpdateType_classification [of "mkVersion [5, 1] ''5.1''" "mkVersion [6, 0, 0] ''6.0.0''"]
  by (simp add: mkVersion_def)

section \<open>The outdated decision\<close>

text \<open>
  C3.  The outdated decision is false whenever current \<open>\<ge>\<close> latest in the precedence of
  the version library.  Otherwise, when both versions have at least three segments:
  under patchOnly it is true iff major and minor components are equal; under minorOnly
  (patchOnly, the stricter policy, is tested first and wins when both flags are set) it is
  true iff the major components are equal; with no restriction it is true.  With fewer
  than three segments on either side it is true whatever the policy.
\<close>

theorem shouldUpdate_decision:
  fixes current latest :: Version
  defines "cs \<equiv> Segments current" and "ls \<equiv> Segments latest"
  shows "(GreaterThanOrEqual lib current latest \<longrightarrow> \<not> shouldUpdate lib c current latest)
       \<and> (\<not> GreaterThanOrEqual lib current latest \<and> length cs \<ge> 3 \<and> length ls \<ge> 3 \<longrightarrow>
            (patchOnly c \<longrightarrow>
               shouldUpdate lib c current latest = (cs ! 0 = ls ! 0 \<and> cs ! 1 = ls ! 1))
          \<and> (\<not> patchOnly c \<and> minorOnly c \<longrightarrow>
               shouldUpdate lib c current latest = (cs ! 0 = ls ! 0))
          \<and> (\<not> patchOnly c \<and> \<not> minorOnly c \<longrightarrow> shouldUpdate lib c current latest))
       \<and> (\<not> GreaterThanOrEqual lib current latest \<and> (length cs < 3 \<or> length ls < 3) \<longrightarrow>
            shouldUpdate lib c current latest)"
  unfolding cs_def ls_def shouldUpdate_def Let_def by auto

theorem shouldUpdate_decision_witness:
  "\<not> shouldUpdate segmentLib (mkChecker False False)
        (mkVersion [5, 1, 0] ''5.1.0'') (mkVersion [5, 1, 0] ''5.1.0'')
   \<and> \<not> shouldUpdate segmentLib (mkChecker True False)
        (mkVersion [5, 0, 0] ''5.0.0'') (mkVersion [5, 1, 0] ''5.1.0'')
   \<and> shouldUpdate segmentLib (mkChecker True False)
        (mkVersion [5, 0, 0] ''5.0.0'') (mkVersion [5, 0, 1] ''5.0.1'')
   \<and> shouldUpdate segmentLib (mkChecker False True)
        (mkVersion [5, 0, 0] ''5.0.0'') (mkVersion [5, 1, 0] ''5.1.0'')
   \<and> \<not> shouldUpdate segmentLib (mkChecker False True)
        (mkVersion [5, 0, 0] ''5.0.0'') (mkVersion [6, 0, 0] ''6.0.0'')
   \<and> shouldUpdate segmentLib (mkChecker False False)
        (mkVersion [5, 0, 0] ''5.0.0'') (mkVersion [6, 0, 0] ''6.0.0'')
   \<and> shouldUpdate segmentLib (mkChecker True True)
        (mkVersion [5, 0] ''5.0'') (mkVersion [6, 0, 0] ''6.0.0'')"
  using shouldUpdate_decision [of segmentLib "mkVersion [5, 1, 0] ''5.1.0''" "mkVersion [5, 1, 0] ''5.1.0''" "mkChecker False False"]
        shouldUpdate_decision [of segmentLib "mkVersion [5, 0, 0] ''5.0.0''" "mkVersion [5, 1, 0] ''5.1.0''" "mkChecker True False"]
        shouldUpdate_decision [of segmentLib "mkVersion [5, 0, 0] ''5.0.0''" "mkVersion [5, 0, 1] ''5.0.1''" "mkChecker True False"]
        shouldUpdate_decision [of segmentLib "mkVersion [5, 0, 0] ''5.0.0''" "mkVersion [5, 1, 0] ''5.1.0''" "mkChecker False True"]
        shouldUpdate_decision [of segmentLib "mkVersion [5, 0, 0] ''5.0.0''" "mkVersion [6, 0, 0] ''6.0.0''" "mkChecker False True"]
        shouldUpdate_decision [of segmentLib "mkVersion [5, 0, 0] ''5.0.0''" "mkVersion [6, 0, 0] ''6.0.0''" "mkChecker False False"]
        shouldUpdate_decision [of segmentLib "mkVersion [5, 0] ''5.0''" "mkVersion [6, 0, 0] ''6.0.0''" "mkChecker True True"]
  by (simp add: mkVersion_def mkChecker_def segmentLib_def GreaterThanOrEqual_def)


section \<open>The resource-change summary\<close>

lemma scanActions_flags:
  "scanActions acts (c, d, u) =
     (c \<or> ''create'' \<in> set acts, d \<or> ''delete'' \<in> set acts, u \<or> ''update'' \<in> set acts)"
  by (induction acts arbitrary: c d u) auto

lemma analyzeChange_cases:
  "analyzeChange s ch =
     (if isReplaceRecord ch then
        s\<lparr>ResourcesToReplace := ResourcesToReplace s @ [itemOf ch], TotalReplace := TotalReplace s + 1\<rparr>
      else if isDeleteRecord ch then
        s\<lparr>ResourcesToDelete := ResourcesToDelete s @ [itemOf ch], TotalDelete := TotalDelete s + 1\<rparr>
      else if isModifyRecord ch then
        s\<lparr>ResourcesToModify := ResourcesToModify s @ [itemOf ch], TotalModify := TotalModify s + 1\<rparr>
      else s)"
  by (auto simp: analyzeChange_def scanActions_flags isReplaceRecord_def isDeleteRecord_def
        isModifyRecord_def itemOf_def Let_def)

lemma buckets_exclusive:
  "\<not> (isReplaceRecord ch \<and> isDeleteRecord ch)"
  "\<not> (isReplaceRecord ch \<and> isModifyRecord ch)"
  "\<not> (isDeleteRecord ch \<and> isModifyRecord ch)"
  by (auto simp: isReplaceRecord_def isDeleteRecord_def isModifyRecord_def)

lemma analyzeLoop_summary:
  "analyzeLoop chs s =
     s\<lparr>ResourcesToReplace := ResourcesToReplace s @ map itemOf (filter isReplaceRecord chs),
       ResourcesToDelete := ResourcesToDelete s @ map itemOf (filter isDeleteRecord chs),
       ResourcesToModify := ResourcesToModify s @ map itemOf (filter isModifyRecord chs),
       TotalReplace := TotalReplace s + int (length (filter isReplaceRecord chs)),
       TotalDelete := TotalDelete s + int (length (filter isDeleteRecord chs)),
       TotalModify := TotalModify s + int (length (filter isModifyRecord chs))\<rparr>"
proof (induction chs arbitrary: s)
  case Nil
  show ?case by simp
next
  case (Cons ch chs)
  show ?case
    using buckets_exclusive [of ch] by (simp add: Cons.IH analyzeChange_cases)
qed


lemma AnalyzeResourceChanges_summary:
  "AnalyzeResourceChanges planResult =
     \<lparr>HasChanges = (changesOf planResult \<noteq> []),
      ResourcesToReplace = map itemOf (filter isReplaceRecord (changesOf planResult)),
      ResourcesToDelete = map itemOf (filter isDeleteRecord (changesOf planResult)),
      ResourcesToModify = map itemOf (filter isModifyRecord (changesOf planResult)),
      TotalReplace = int (length (filter isReplaceRecord (changesOf planResult))),
      TotalDelete = int (length (filter isDeleteRecord (changesOf planResult))),
      TotalModify = int (length (filter isModifyRecord (changesOf planResult)))\<rparr>"
  by (auto simp: AnalyzeResourceChanges_def changesOf_def analyzeLoop_summary split: option.splits)

lemma three_filters_le:
  "length (filter isReplaceRecord chs) + length (filter isDeleteRecord chs)
     + length (filter isModifyRecord chs) \<le> length chs"
proof (induction chs)
  case Nil
  show ?case by simp
next
  case (Cons ch chs)
  then show ?case using buckets_exclusive [of ch] by auto
qed

text \<open>
  C4 (as the code has it).  The summary's \<open>HasChanges\<close> flag is true iff the plan is
  present and its list of change records is non-empty, whether or not any record was put
  into a bucket; in particular it is true whenever a record was classified as replace,
  delete or modify.
\<close>

theorem AnalyzeResourceChanges_HasChanges:
  fixes planResult :: "PlanResult option"
  defines "s \<equiv> AnalyzeResourceChanges planResult"
  shows "HasChanges s = (\<exists>p. planResult = Some p \<and> DetailedChanges p \<noteq> [])
       \<and> (ResourcesToReplace s \<noteq> [] \<or> ResourcesToDelete s \<noteq> [] \<or> ResourcesToModify s \<noteq> []
            \<longrightarrow> HasChanges s)"
  unfolding s_def AnalyzeResourceChanges_summary
  by (cases planResult) (auto simp: changesOf_def)

theorem AnalyzeResourceChanges_HasChanges_witness:
  "HasChanges (AnalyzeResourceChanges (Some (mkPlan [mkChange ''aws_s3_bucket.old'' [''delete'']])))
   \<and> ResourcesToDelete (AnalyzeResourceChanges (Some (mkPlan [mkChange ''aws_s3_bucket.old'' [''delete'']]))) \<noteq> []
   \<and> \<not> HasChanges (AnalyzeResourceChanges (Some (mkPlan [])))
   \<and> \<not> HasChanges (AnalyzeResourceChanges None)"
  using AnalyzeResourceChanges_HasChanges [of "Some (mkPlan [mkChange ''aws_s3_bucket.old'' [''delete'']])"]
        AnalyzeResourceChanges_HasChanges [of "Some (mkPlan [])"]
        AnalyzeResourceChanges_HasChanges [of None]
  by (simp add: mkPlan_def mkChange_def AnalyzeResourceChanges_def analyzeChange_def)

text \<open>
  A plan whose only record has the action set \<open>{create}\<close>: nothing is classified, and
  \<open>HasChanges\<close> is true.
\<close>

theorem AnalyzeResourceChanges_HasChanges_counterexample:
  "AnalyzeResourceChanges (Some (mkPlan [mkChange ''aws_instance.web'' [''create'']])) =
     \<lparr>HasChanges = True, ResourcesToReplace = [], ResourcesToDelete = [],
      ResourcesToModify = [], TotalReplace = 0, TotalDelete = 0, TotalModify = 0\<rparr>"
  by (simp add: mkPlan_def mkChange_def AnalyzeResourceChanges_def analyzeChange_def)

text \<open>
  C10.  The replace, delete and modify buckets are mutually exclusive, with precedence
  replace, then delete, then modify: each itemized list holds exactly the records of its
  bucket, in input order, each counter is the length of its list, a record with create
  and delete is a replace only (also when it has update), a record with delete and no
  create is a delete only (also when it has update), and the three counters together
  never exceed the number of input records.
\<close>

theorem AnalyzeResourceChanges_buckets:
  fixes planResult :: "PlanResult option"
  defines "s \<equiv> AnalyzeResourceChanges planResult"
      and "changes \<equiv> changesOf planResult"
  shows "ResourcesToReplace s = map itemOf (filter isReplaceRecord changes)
       \<and> ResourcesToDelete s = map itemOf (filter isDeleteRecord changes)
       \<and> ResourcesToModify s = map itemOf (filter isModifyRecord changes)
       \<and> TotalReplace s = int (length (filter isReplaceRecord changes))
       \<and> TotalDelete s = int (length (filter isDeleteRecord changes))
       \<and> TotalModify s = int (length (filter isModifyRecord changes))
       \<and> (\<forall>ch. \<not> (isReplaceRecord ch \<and> isDeleteRecord ch)
              \<and> \<not> (isReplaceRecord ch \<and> isModifyRecord ch)
              \<and> \<not> (isDeleteRecord ch \<and> isModifyRecord ch))
       \<and> (\<forall>ch. ''create'' \<in> set (Action ch) \<and> ''delete'' \<in> set (Action ch) \<longrightarrow>
              isReplaceRecord ch \<and> \<not> isDeleteRecord ch \<and> \<not> isModifyRecord ch)
       \<and> (\<forall>ch. ''delete'' \<in> set (Action ch) \<and> ''create'' \<notin> set (Action ch) \<longrightarrow>
              isDeleteRecord ch \<and> \<not> isReplaceRecord ch \<and> \<not> isModifyRecord ch)
       \<and> TotalReplace s + TotalDelete s + TotalModify s \<le> int (length changes)"
proof -
  have "TotalReplace s + TotalDelete s + TotalModify s \<le> int (length changes)"
    unfolding s_def changes_def AnalyzeResourceChanges_summary
    using three_filters_le [of "changesOf planResult"] by simp
  moreover have "\<forall>ch. ''create'' \<in> set (Action ch) \<and> ''delete'' \<in> set (Action ch) \<longrightarrow>
              isReplaceRecord ch \<and> \<not> isDeleteRecord ch \<and> \<not> isModifyRecord ch"
    by (auto simp: isReplaceRecord_def isDeleteRecord_def isModifyRecord_def)
  moreover have "\<forall>ch. ''delete'' \<in> set (Action ch) \<and> ''create'' \<notin> set (Action ch) \<longrightarrow>
              isDeleteRecord ch \<and> \<not> isReplaceRecord ch \<and> \<not> isModifyRecord ch"
    by (auto simp: isReplaceRecord_def isDeleteRecord_def isModifyRecord_def)
  ultimately show ?thesis
    unfolding s_def changes_def AnalyzeResourceChanges_summary
    using buckets_exclusive by simp
qed

theorem AnalyzeResourceChanges_buckets_witness:
  "TotalReplace (AnalyzeResourceChanges (Some (mkPlan
      [mkChange ''a'' [''delete'', ''create'', ''update''], mkChange ''b'' [''delete'', ''update''],
       mkChange ''c'' [''update''], mkChange ''d'' [''create'']]))) = 1
   \<and> TotalDelete (AnalyzeResourceChanges (Some (mkPlan
      [mkChange ''a'' [''delete'', ''create'', ''update''], mkChange ''b'' [''delete'', ''update''],
       mkChange ''c'' [''update''], mkChange ''d'' [''create'']]))) = 1
   \<and> TotalModify (AnalyzeResourceChanges (Some (mkPlan
      [mkChange ''a'' [''delete'', ''create'', ''update''], mkChange ''b'' [''delete'', ''update''],
       mkChange ''c'' [''update''], mkChange ''d'' [''create'']]))) = 1
   \<and> map rcAddress (ResourcesToReplace (AnalyzeResourceChanges (Some (mkPlan
      [mkChange ''a'' [''delete'', ''create'', ''update''], mkChange ''b'' [''delete'', ''update''],
       mkChange ''c'' [''update''], mkChange ''d'' [''create'']])))) = [''a'']
   \<and> map rcAddress (ResourcesToDelete (AnalyzeResourceChanges (Some (mkPlan
      [mkChange ''a'' [''delete'', ''create'', ''update''], mkChange ''b'' [''delete'', ''update''],
       mkChange ''c'' [''update''], mkChange ''d'' [''create'']])))) = [''b'']
   \<and> map rcAddress (ResourcesToModify (AnalyzeResourceChanges (Some (mkPlan
      [mkChange ''a'' [''delete'', ''create'', ''update''], mkChange ''b'' [''delete'', ''update''],
       mkChange ''c'' [''update''], mkChange ''d'' [''create'']])))) = [''c'']
   \<and> isReplaceRecord (mkChange ''a'' [''delete'', ''create'', ''update''])
   \<and> isDeleteRecord (mkChange ''b'' [''delete'', ''update''])"
  using AnalyzeResourceChanges_buckets [of "Some (mkPlan
      [mkChange ''a'' [''delete'', ''create'', ''update''], mkChange ''b'' [''delete'', ''update''],
       mkChange ''c'' [''update''], mkChange ''d'' [''create'']])"]
  by (simp add: mkPlan_def mkChange_def changesOf_def isReplaceRecord_def isDeleteRecord_def
        isModifyRecord_def itemOf_def)

section \<open>The cache\<close>

text \<open>
  C6.  \<open>Get\<close> reports found = false when the key is absent and when the entry is present
  but the time since its captured timestamp is strictly greater than its TTL; otherwise
  it reports found = true with exactly the stored tag list.  Hence a \<open>Set\<close> followed by
  a \<open>Get\<close> of the same key finds the same tags as long as the time since the \<open>Set\<close> is
  at most the cache's TTL (in particular at the same instant, when the TTL is not
  negative), and does not find them once that time exceeds the TTL.
\<close>

theorem Get_found_iff_fresh:
  "(entries c key = None \<longrightarrow> fst (Get c key now) = (None, False))
   \<and> (\<forall>e. entries c key = Some e \<and> Since (CachedAt e) now > TTL e \<longrightarrow>
          fst (Get c key now) = (None, False))
   \<and> (\<forall>e. entries c key = Some e \<and> \<not> Since (CachedAt e) now > TTL e \<longrightarrow>
          fst (Get c key now) = (Tags e, True))
   \<and> (0 \<le> ttl c \<longrightarrow> fst (Get (Set c key tags t) key t) = (tags, True))
   \<and> (Since t now \<le> ttl c \<longrightarrow> fst (Get (Set c key tags t) key now) = (tags, True))
   \<and> (Since t now > ttl c \<longrightarrow> fst (Get (Set c key tags t) key now) = (None, False))"
  by (auto simp: Get_def Set_def Since_def Sub_def maxDuration_def minDuration_def)

theorem Get_found_iff_fresh_witness:
  "fst (Get (NewMemoryOnly 3600000000000) ''hashicorp/terraform'' 0) = (None, False)
   \<and> fst (Get (Set (NewMemoryOnly 100000000) ''hashicorp/terraform'' (Some [''v1.0.0'', ''v1.1.0'']) 5)
            ''hashicorp/terraform'' 5) = (Some [''v1.0.0'', ''v1.1.0''], True)
   \<and> fst (Get (Set (NewMemoryOnly 100000000) ''hashicorp/terraform'' (Some [''v1.0.0'', ''v1.1.0'']) 5)
            ''hashicorp/terraform'' 100000005) = (Some [''v1.0.0'', ''v1.1.0''], True)
   \<and> fst (Get (Set (NewMemoryOnly 100000000) ''hashicorp/terraform'' (Some [''v1.0.0'', ''v1.1.0'']) 5)
            ''hashicorp/terraform'' 150000005) = (None, False)"
  using Get_found_iff_fresh [of "NewMemoryOnly 3600000000000" "''hashicorp/terraform''" 0 "None" 0]
        Get_found_iff_fresh [of "NewMemoryOnly 100000000" "''hashicorp/terraform''" 100000005
           "Some [''v1.0.0'', ''v1.1.0'']" 5]
        Get_found_iff_fresh [of "NewMemoryOnly 100000000" "''hashicorp/terraform''" 150000005
           "Some [''v1.0.0'', ''v1.1.0'']" 5]
  by (simp add: NewMemoryOnly_def Since_def Sub_def maxDuration_def minDuration_def)

text \<open>
  C9.  \<open>Get\<close> never changes the cache: the cache after the call, with every entry,
  expired or not, is the cache before it.
\<close>

theorem Get_leaves_cache: "snd (Get c key now) = c"
  by (simp add: Get_def split: option.splits)

section \<open>The advisory-confidence filter\<close>

lemma confidenceLevel_ordinal:
  "(case confidenceLevel s of Some l \<Rightarrow> l | None \<Rightarrow> 1) = confidenceOrdinal s"
  by (simp add: confidenceLevel_def confidenceOrdinal_def)

text \<open>
  C8.  An update with no advisory signal always passes the filter; an update with one
  passes iff the ordinal of its confidence is at least the ordinal of the configured
  minimum, where low is 1, medium is 2, high is 3 and any other string, on either side,
  counts as low.
\<close>

theorem shouldDisplayAIAnalysis_ordinal:
  "shouldDisplayAIAnalysis None minConfidence
   \<and> shouldDisplayAIAnalysis (Some a) minConfidence
       = (confidenceOrdinal (Confidence a) \<ge> confidenceOrdinal minConfidence)
   \<and> confidenceOrdinal ''low'' = 1 \<and> confidenceOrdinal ''medium'' = 2
   \<and> confidenceOrdinal ''high'' = 3
   \<and> (\<forall>s. s \<noteq> ''low'' \<and> s \<noteq> ''medium'' \<and> s \<noteq> ''high'' \<longrightarrow> confidenceOrdinal s = 1)"
  by (simp add: shouldDisplayAIAnalysis_def confidenceLevel_ordinal)
     (simp add: confidenceOrdinal_def)

theorem shouldDisplayAIAnalysis_ordinal_witness:
  "shouldDisplayAIAnalysis (Some (mkAnalysis ''high'')) ''medium''
   \<and> \<not> shouldDisplayAIAnalysis (Some (mkAnalysis ''low'')) ''medium''
   \<and> \<not> shouldDisplayAIAnalysis (Some (mkAnalysis ''certain'')) ''medium''
   \<and> shouldDisplayAIAnalysis (Some (mkAnalysis ''low'')) ''unsure''
   \<and> confidenceOrdinal ''certain'' = 1"
  using shouldDisplayAIAnalysis_ordinal [of "''medium''" "mkAnalysis ''high''"]
        shouldDisplayAIAnalysis_ordinal [of "''medium''" "mkAnalysis ''low''"]
        shouldDisplayAIAnalysis_ordinal [of "''medium''" "mkAnalysis ''certain''"]
        shouldDisplayAIAnalysis_ordinal [of "''unsure''" "mkAnalysis ''low''"]
  by (simp add: mkAnalysis_def)

section \<open>The schema change set\<close>

lemma checkLatestVariable_step:
  "checkLatestVariable cur ch e =
     (if addedRequired cur e then
        ch\<lparr>AddedRequiredVars := AddedRequiredVars ch @ [addedVarChange e], SchemaHasChanges := True\<rparr>
      else if typeChanged cur e then
        ch\<lparr>ChangedVarTypes := ChangedVarTypes ch @ [typeVarChange cur e], SchemaHasChanges := True\<rparr>
      else ch)"
  by (cases e)
     (auto simp: checkLatestVariable_def addedRequired_def typeChanged_def addedVarChange_def
        typeVarChange_def split: option.splits)

lemma added_not_changed: "\<not> (addedRequired cur e \<and> typeChanged cur e)"
  by (auto simp: addedRequired_def typeChanged_def)

lemma foldl_checkLatestVariable:
  "foldl (checkLatestVariable cur) ch vs =
     ch\<lparr>AddedRequiredVars := AddedRequiredVars ch @ map addedVarChange (filter (addedRequired cur) vs),
        ChangedVarTypes := ChangedVarTypes ch @ map (typeVarChange cur) (filter (typeChanged cur) vs),
        SchemaHasChanges := (SchemaHasChanges ch \<or> filter (addedRequired cur) vs \<noteq> []
                             \<or> filter (typeChanged cur) vs \<noteq> [])\<rparr>"
proof (induction vs arbitrary: ch)
  case Nil
  show ?case by simp
next
  case (Cons e vs)
  show ?case
    apply (simp only: foldl.simps Cons.IH)
    using added_not_changed [of cur e]
    by (simp add: checkLatestVariable_step)
qed

lemma checkCurrentVariable_step:
  "checkCurrentVariable lat ch e =
     (if removedVar lat e then
        ch\<lparr>RemovedVars := RemovedVars ch @ [removedVarChange e], SchemaHasChanges := True\<rparr>
      else ch)"
  by (cases e)
     (auto simp: checkCurrentVariable_def removedVar_def removedVarChange_def split: option.splits)

lemma foldl_checkCurrentVariable:
  "foldl (checkCurrentVariable lat) ch vs =
     ch\<lparr>RemovedVars := RemovedVars ch @ map removedVarChange (filter (removedVar lat) vs),
        SchemaHasChanges := (SchemaHasChanges ch \<or> filter (removedVar lat) vs \<noteq> [])\<rparr>"
proof (induction vs arbitrary: ch)
  case Nil
  show ?case by simp
next
  case (Cons e vs)
  show ?case
    apply (simp only: foldl.simps Cons.IH)
    by (simp add: checkCurrentVariable_step)
qed

lemma checkCurrentOutput_step:
  "checkCurrentOutput lat ch e =
     (if missingOutput lat e then
        ch\<lparr>RemovedOutputs := RemovedOutputs ch @ [outputChange e], SchemaHasChanges := True\<rparr>
      else ch)"
  by (cases e)
     (auto simp: checkCurrentOutput_def missingOutput_def outputChange_def split: option.splits)

lemma foldl_checkCurrentOutput:
  "foldl (checkCurrentOutput lat) ch os =
     ch\<lparr>RemovedOutputs := RemovedOutputs ch @ map outputChange (filter (missingOutput lat) os),
        SchemaHasChanges := (SchemaHasChanges ch \<or> filter (missingOutput lat) os \<noteq> [])\<rparr>"
proof (induction os arbitrary: ch)
  case Nil
  show ?case by simp
next
  case (Cons e os)
  show ?case
    apply (simp only: foldl.simps Cons.IH)
    by (simp add: checkCurrentOutput_step)
qed

lemma checkLatestOutput_step:
  "checkLatestOutput cur ch e =
     (if missingOutput cur e then ch\<lparr>AddedOutputs := AddedOutputs ch @ [outputChange e]\<rparr> else ch)"
  by (cases e)
     (auto simp: checkLatestOutput_def missingOutput_def outputChange_def split: option.splits)

lemma foldl_checkLatestOutput:
  "foldl (checkLatestOutput cur) ch os =
     ch\<lparr>AddedOutputs := AddedOutputs ch @ map outputChange (filter (missingOutput cur) os)\<rparr>"
proof (induction os arbitrary: ch)
  case Nil
  show ?case by simp
next
  case (Cons e os)
  show ?case
    apply (simp only: foldl.simps Cons.IH)
    by (simp add: checkLatestOutput_step)
qed

lemma compareSchemaStructures_Some:
  "compareSchemaStructures (Some cur) (Some lat) =
     \<lparr>SchemaHasChanges = (filter (addedRequired cur) (Variables lat) \<noteq> []
                            \<or> filter (typeChanged cur) (Variables lat) \<noteq> []
                            \<or> filter (removedVar lat) (Variables cur) \<noteq> []
                            \<or> filter (missingOutput lat) (Outputs cur) \<noteq> []),
      AddedRequiredVars = map addedVarChange (filter (addedRequired cur) (Variables lat)),
      RemovedVars = map removedVarChange (filter (removedVar lat) (Variables cur)),
      ChangedVarTypes = map (typeVarChange cur) (filter (typeChanged cur) (Variables lat)),
      RemovedOutputs = map outputChange (filter (missingOutput lat) (Outputs cur)),
      AddedOutputs = map outputChange (filter (missingOutput cur) (Outputs lat))\<rparr>"
  by (auto simp: compareSchemaStructures_def noSchemaChanges_def foldl_checkLatestVariable
        foldl_checkCurrentVariable foldl_checkCurrentOutput foldl_checkLatestOutput)

lemma compareSchemaStructures_nil:
  "compareSchemaStructures None latest = noSchemaChanges"
  "compareSchemaStructures current None = noSchemaChanges"
  by (simp_all add: compareSchemaStructures_def split: option.splits)

lemma names_addedRequired:
  assumes "distinct (map fst vs)"
  shows "vcName ` set (map addedVarChange (filter (addedRequired cur) vs))
           = {n. \<exists>v. map_of vs n = Some v \<and> map_of (Variables cur) n = None \<and> vRequired v}"
  using assms by (auto simp: addedVarChange_def addedRequired_def image_iff)

lemma names_typeChanged:
  assumes "distinct (map fst vs)"
  shows "vcName ` set (map (typeVarChange cur) (filter (typeChanged cur) vs))
           = {n. \<exists>v w. map_of vs n = Some v \<and> map_of (Variables cur) n = Some w
                      \<and> vType w \<noteq> vType v}"
  using assms
  by (auto simp: typeVarChange_def typeChanged_def image_iff split: option.splits)

lemma names_removedVar:
  "vcName ` set (map removedVarChange (filter (removedVar lat) vs))
           = dom (map_of vs) - dom (map_of (Variables lat))"
proof -
  have "vcName ` set (map removedVarChange (filter (removedVar lat) vs))
          = fst ` {e \<in> set vs. fst e \<notin> fst ` set (Variables lat)}"
    by (force simp: removedVarChange_def removedVar_def map_of_eq_None_iff)
  also have "\<dots> = fst ` set vs - fst ` set (Variables lat)"
    by force
  finally show ?thesis
    by (simp add: dom_map_of_conv_image_fst)
qed

lemma names_missingOutput:
  "ocName ` set (map outputChange (filter (missingOutput other) os))
           = dom (map_of os) - dom (map_of (Outputs other))"
proof -
  have "ocName ` set (map outputChange (filter (missingOutput other) os))
          = fst ` {e \<in> set os. fst e \<notin> fst ` set (Outputs other)}"
    by (force simp: outputChange_def missingOutput_def map_of_eq_None_iff)
  also have "\<dots> = fst ` set os - fst ` set (Outputs other)"
    by force
  finally show ?thesis
    by (simp add: dom_map_of_conv_image_fst)
qed

text \<open>
  C5.  For two well-formed schema snapshots the change set records: as
  added-required-variable exactly the variables new in latest that are required (a new
  variable that is not required is recorded in no variable category); as
  changed-variable-type exactly the variables present in both with differing declared
  type; as removed-variable exactly the variables present only in current; as
  removed-output exactly the outputs present only in current; as added-output exactly
  the outputs new in latest.  \<open>HasChanges\<close> is true iff one of the four breaking
  categories is non-empty, which is what \<open>HasBreakingSchemaChanges\<close> computes; added
  outputs never set it.  If either snapshot is nil the result is empty and non-breaking.
\<close>

theorem compareSchemaStructures_categories:
  fixes cur lat :: ModuleSchema
  assumes wf: "wellFormedSchema cur" "wellFormedSchema lat"
  defines "ch \<equiv> compareSchemaStructures (Some cur) (Some lat)"
      and "cv \<equiv> map_of (Variables cur)" and "lv \<equiv> map_of (Variables lat)"
      and "co \<equiv> map_of (Outputs cur)" and "lo \<equiv> map_of (Outputs lat)"
  shows "vcName ` set (AddedRequiredVars ch)
           = {n. \<exists>v. lv n = Some v \<and> cv n = None \<and> vRequired v}
       \<and> vcName ` set (ChangedVarTypes ch)
           = {n. \<exists>v w. lv n = Some v \<and> cv n = Some w \<and> vType w \<noteq> vType v}
       \<and> vcName ` set (RemovedVars ch) = dom cv - dom lv
       \<and> ocName ` set (RemovedOutputs ch) = dom co - dom lo
       \<and> ocName ` set (AddedOutputs ch) = dom lo - dom co
       \<and> (\<forall>n v. lv n = Some v \<and> cv n = None \<and> \<not> vRequired v \<longrightarrow>
             n \<notin> vcName ` set (AddedRequiredVars ch) \<and> n \<notin> vcName ` set (ChangedVarTypes ch)
             \<and> n \<notin> vcName ` set (RemovedVars ch))
       \<and> SchemaHasChanges ch
           = (AddedRequiredVars ch \<noteq> [] \<or> RemovedVars ch \<noteq> [] \<or> ChangedVarTypes ch \<noteq> []
              \<or> RemovedOutputs ch \<noteq> [])
       \<and> HasBreakingSchemaChanges (Some ch) = SchemaHasChanges ch
       \<and> compareSchemaStructures None latest' = noSchemaChanges
       \<and> compareSchemaStructures current' None = noSchemaChanges
       \<and> \<not> SchemaHasChanges noSchemaChanges
       \<and> \<not> HasBreakingSchemaChanges (Some noSchemaChanges)
       \<and> AddedRequiredVars noSchemaChanges = [] \<and> RemovedVars noSchemaChanges = []
       \<and> ChangedVarTypes noSchemaChanges = [] \<and> RemovedOutputs noSchemaChanges = []
       \<and> AddedOutputs noSchemaChanges = []"
proof -
  have dl: "distinct (map fst (Variables lat))"
    using wf by (simp add: wellFormedSchema_def)
  have a: "vcName ` set (AddedRequiredVars ch)
             = {n. \<exists>v. lv n = Some v \<and> cv n = None \<and> vRequired v}"
    unfolding ch_def lv_def cv_def compareSchemaStructures_Some
    using names_addedRequired [OF dl, of cur] by simp
  have c: "vcName ` set (ChangedVarTypes ch)
             = {n. \<exists>v w. lv n = Some v \<and> cv n = Some w \<and> vType w \<noteq> vType v}"
    unfolding ch_def lv_def cv_def compareSchemaStructures_Some
    using names_typeChanged [OF dl, of cur] by simp
  have r: "vcName ` set (RemovedVars ch) = dom cv - dom lv"
    unfolding ch_def lv_def cv_def compareSchemaStructures_Some
    using names_removedVar [of lat "Variables cur"] by simp
  have ro: "ocName ` set (RemovedOutputs ch) = dom co - dom lo"
    unfolding ch_def lo_def co_def compareSchemaStructures_Some
    using names_missingOutput [of lat "Outputs cur"] by simp
  have ao: "ocName ` set (AddedOutputs ch) = dom lo - dom co"
    unfolding ch_def lo_def co_def compareSchemaStructures_Some
    using names_missingOutput [of cur "Outputs lat"] by simp
  have n: "\<forall>n v. lv n = Some v \<and> cv n = None \<and> \<not> vRequired v \<longrightarrow>
             n \<notin> vcName ` set (AddedRequiredVars ch) \<and> n \<notin> vcName ` set (ChangedVarTypes ch)
             \<and> n \<notin> vcName ` set (RemovedVars ch)"
    unfolding a c r by auto
  have h: "SchemaHasChanges ch
           = (AddedRequiredVars ch \<noteq> [] \<or> RemovedVars ch \<noteq> [] \<or> ChangedVarTypes ch \<noteq> []
              \<or> RemovedOutputs ch \<noteq> [])"
    unfolding ch_def compareSchemaStructures_Some by auto
  have b: "HasBreakingSchemaChanges (Some ch) = SchemaHasChanges ch"
    unfolding h by (auto simp: HasBreakingSchemaChanges_def)
  have e: "compareSchemaStructures None latest' = noSchemaChanges"
          "compareSchemaStructures current' None = noSchemaChanges"
          "\<not> SchemaHasChanges noSchemaChanges"
          "\<not> HasBreakingSchemaChanges (Some noSchemaChanges)"
          "AddedRequiredVars noSchemaChanges = []" "RemovedVars noSchemaChanges = []"
          "ChangedVarTypes noSchemaChanges = []" "RemovedOutputs noSchemaChanges = []"
          "AddedOutputs noSchemaChanges = []"
    by (simp_all add: compareSchemaStructures_nil noSchemaChanges_def HasBreakingSchemaChanges_def)
  show ?thesis
    using a c r ro ao n h b e by blast
qed

theorem compareSchemaStructures_categories_witness:
  "wellFormedSchema exampleCurrent \<and> wellFormedSchema exampleLatest
   \<and> map vcName (AddedRequiredVars (compareSchemaStructures (Some exampleCurrent) (Some exampleLatest)))
        = [''availability_zone'']
   \<and> vcName ` set (RemovedVars (compareSchemaStructures (Some exampleCurrent) (Some exampleLatest)))
        = {''old''}
   \<and> ocName ` set (RemovedOutputs (compareSchemaStructures (Some exampleCurrent) (Some exampleLatest)))
        = {''arn''}
   \<and> ocName ` set (AddedOutputs (compareSchemaStructures (Some exampleCurrent) (Some exampleLatest)))
        = {''subnet_ids''}
   \<and> ''tags'' \<notin> vcName ` set (AddedRequiredVars (compareSchemaStructures (Some exampleCurrent) (Some exampleLatest)))
   \<and> ''tags'' \<notin> vcName ` set (ChangedVarTypes (compareSchemaStructures (Some exampleCurrent) (Some exampleLatest)))
   \<and> ''tags'' \<notin> vcName ` set (RemovedVars (compareSchemaStructures (Some exampleCurrent) (Some exampleLatest)))
   \<and> HasBreakingSchemaChanges (Some (compareSchemaStructures (Some exampleCurrent) (Some exampleLatest)))
   \<and> SchemaHasChanges (compareSchemaStructures (Some exampleCurrent) (Some exampleLatest))"
proof -
  have wc: "wellFormedSchema exampleCurrent"
    by (simp add: wellFormedSchema_def exampleCurrent_def mkSchema_def)
  have wl: "wellFormedSchema exampleLatest"
    by (simp add: wellFormedSchema_def exampleLatest_def mkSchema_def)
  have added: "map vcName (AddedRequiredVars
          (compareSchemaStructures (Some exampleCurrent) (Some exampleLatest))) = [''availability_zone'']"
    by (simp add: compareSchemaStructures_def noSchemaChanges_def checkLatestVariable_def
          checkCurrentVariable_def checkCurrentOutput_def checkLatestOutput_def
          exampleCurrent_def exampleLatest_def mkSchema_def mkVar_def mkOut_def)
  have dc: "dom (map_of (Variables exampleCurrent)) = {''vpc_cidr'', ''old'', ''size''}"
    and dl: "dom (map_of (Variables exampleLatest))
               = {''vpc_cidr'', ''availability_zone'', ''tags'', ''size''}"
    and oc: "dom (map_of (Outputs exampleCurrent)) = {''vpc_id'', ''arn''}"
    and ol: "dom (map_of (Outputs exampleLatest)) = {''vpc_id'', ''subnet_ids''}"
    by (auto simp: exampleCurrent_def exampleLatest_def mkSchema_def)
  have t: "map_of (Variables exampleLatest) ''tags'' = Some (mkVar ''map'' False)
           \<and> map_of (Variables exampleCurrent) ''tags'' = None
           \<and> \<not> vRequired (mkVar ''map'' False)"
    by (simp add: exampleCurrent_def exampleLatest_def mkSchema_def mkVar_def)
  note T = compareSchemaStructures_categories [OF wc wl]
  have nonempty: "AddedRequiredVars (compareSchemaStructures (Some exampleCurrent) (Some exampleLatest)) \<noteq> []"
    using added by auto
  show ?thesis
    using wc wl added T t nonempty unfolding dc dl oc ol by auto
qed

section \<open>The verdicts of the resolver\<close>

text \<open>
  Sorting keeps the number of versions, so the index of the latest version, the length
  minus one, is in range whenever the check functions reach it.
\<close>

lemma length_insertLeft: "length (insertLeft lt x rs) = Suc (length rs)"
  by (induction rs) simp_all

lemma length_foldl_insertLeft:
  "length (foldl (\<lambda>rs x. insertLeft lt x rs) acc vs) = length acc + length vs"
  by (induction vs arbitrary: acc) (simp_all add: length_insertLeft)

lemma length_sortCollection: "length (sortCollection l vs) = length vs"
  by (simp add: sortCollection_def length_foldl_insertLeft)

lemma latest_in_range:
  "vs \<noteq> [] \<Longrightarrow> length (sortCollection l vs) - 1 < length (sortCollection l vs)"
  by (simp add: length_sortCollection)

lemma resolverVerdict_new: "resolverVerdict (newUpdateInfo m cur)"
  by (simp add: resolverVerdict_def newUpdateInfo_def)

lemma resolverVerdict_classify:
  assumes "SchemaChanges u = None" "ResourceChanges u = None" "BreakingChangeDetails u = []"
  shows "resolverVerdict (classifyUpdate w c cur lat u)"
  using assms
  by (simp add: resolverVerdict_def classifyUpdate_def Let_def majorUpgradeDetails_def)

lemma classifyUpdate_frame:
  "SchemaChanges (classifyUpdate w c cur lat u) = SchemaChanges u"
  "ResourceChanges (classifyUpdate w c cur lat u) = ResourceChanges u"
  "AIAnalysis (classifyUpdate w c cur lat u) = AIAnalysis u"
  by (simp_all add: classifyUpdate_def Let_def)

lemma resolverVerdict_registry: "resolverVerdict (fst (checkRegistryModule w c m))"
proof -
  have n: "resolverVerdict (newUpdateInfo m cur)" for cur
    by (rule resolverVerdict_new)
  have k: "resolverVerdict ((classifyUpdate w c cv lv ((newUpdateInfo m cur)\<lparr>LatestVersion := x\<rparr>))
             \<lparr>ChangelogURL := y\<rparr>)" for cv lv cur x y
    using resolverVerdict_classify [of "(newUpdateInfo m cur)\<lparr>LatestVersion := x\<rparr>" w c cv lv]
    by (simp add: resolverVerdict_def newUpdateInfo_def)
  show ?thesis
    unfolding checkRegistryModule_def Let_def
    using n k
    by (auto split: HttpResult.splits RegistryBody.splits list.splits option.splits
             simp: resolverVerdict_def newUpdateInfo_def)
qed

lemma resolverVerdict_gitVerdict:
  "resolverVerdict (fst (gitVerdict w c m (newUpdateInfo m cur) owner repo tagNames))"
proof -
  have k: "resolverVerdict ((classifyUpdate w c cv lv
             ((newUpdateInfo m cur)\<lparr>LatestVersion := x, CurrentVersion := z\<rparr>))
             \<lparr>ChangelogURL := y\<rparr>)" for cv lv x y z
    using resolverVerdict_classify
            [of "(newUpdateInfo m cur)\<lparr>LatestVersion := x, CurrentVersion := z\<rparr>" w c cv lv]
    by (simp add: resolverVerdict_def newUpdateInfo_def)
  show ?thesis
    unfolding gitVerdict_def Let_def
    using k
    by (auto split: option.splits simp: resolverVerdict_def newUpdateInfo_def)
qed

lemma resolverVerdict_git: "resolverVerdict (fst (fst (checkGitModule w c st m)))"
  unfolding checkGitModule_def Let_def
  using resolverVerdict_gitVerdict resolverVerdict_new
  by (auto split: prod.splits option.splits sum.splits)

lemma resolverVerdict_checkModule:
  "checkModule w c st m = Some ((u, e), st') \<Longrightarrow> resolverVerdict u"
  using resolverVerdict_registry [of w c m] resolverVerdict_git [of w c st m]
  by (auto simp: checkModule_def split: if_splits)

lemma resolverVerdict_attach:
  "resolverVerdict (attachAnalysis c m u) = resolverVerdict u"
  by (simp add: attachAnalysis_def resolverVerdict_def split: option.splits)

lemma CheckStep_verdicts:
  assumes "\<forall>u \<in> set (fst acc). resolverVerdict u"
  shows "\<forall>u \<in> set (fst (CheckStep w c acc m)). resolverVerdict u"
proof (cases acc)
  case (Pair updates st)
  show ?thesis
    using assms resolverVerdict_checkModule [of w c st m]
    unfolding Pair CheckStep_def
    by (auto simp: resolverVerdict_attach split: option.splits prod.splits if_splits)
qed

lemma CheckLoop_verdicts:
  "\<forall>u \<in> set (fst acc). resolverVerdict u \<Longrightarrow>
   \<forall>u \<in> set (fst (CheckLoop w c ms acc)). resolverVerdict u"
proof (induction ms arbitrary: acc)
  case Nil
  then show ?case by simp
next
  case (Cons m ms)
  show ?case
    using Cons.IH [OF CheckStep_verdicts [OF Cons.prems]] by simp
qed

lemma Check_verdicts:
  "u \<in> set (fst (fst (Check w c st ms))) \<Longrightarrow> resolverVerdict u"
  using CheckLoop_verdicts [of "([], st)" w c ms]
  by (auto simp: Check_def split: prod.splits)

section \<open>The breaking flag\<close>

lemma applySchemaSignal_frame:
  "UpdateType (applySchemaSignal w u) = UpdateType u"
  "ResourceChanges (applySchemaSignal w u) = ResourceChanges u"
  "AIAnalysis (applySchemaSignal w u) = AIAnalysis u"
  by (simp_all add: applySchemaSignal_def Let_def split: option.splits)

lemma applySchemaSignal_flag:
  assumes "SchemaChanges u = None"
  shows "HasBreakingChange (applySchemaSignal w u)
           = (HasBreakingChange u \<or> HasBreakingSchemaChanges (SchemaChanges (applySchemaSignal w u)))"
    and "BreakingChangeDetails (applySchemaSignal w u)
           = BreakingChangeDetails u
             @ (if HasBreakingSchemaChanges (SchemaChanges (applySchemaSignal w u))
                then (if BreakingChangeDetails u = [] then schemaSentence else schemaSentenceAlso)
                else [])"
  using assms
  by (auto simp: applySchemaSignal_def Let_def HasBreakingSchemaChanges_def schemaSentence_def
        schemaSentenceAlso_def split: option.splits)

lemma applyPlanSignal_frame:
  "UpdateType (fst (applyPlanSignal runner skipPlan u)) = UpdateType u"
  "SchemaChanges (fst (applyPlanSignal runner skipPlan u)) = SchemaChanges u"
  "AIAnalysis (fst (applyPlanSignal runner skipPlan u)) = AIAnalysis u"
  by (simp_all add: applyPlanSignal_def Let_def split: option.splits)

lemma applyPlanSignal_flag:
  assumes "ResourceChanges u = None"
  shows "HasBreakingChange (fst (applyPlanSignal runner skipPlan u))
           = (HasBreakingChange u
              \<or> HasCriticalChanges (ResourceChanges (fst (applyPlanSignal runner skipPlan u))))"
    and "BreakingChangeDetails (fst (applyPlanSignal runner skipPlan u))
           = BreakingChangeDetails u
             @ (if HasCriticalChanges (ResourceChanges (fst (applyPlanSignal runner skipPlan u)))
                then (if BreakingChangeDetails u = [] then planSentence else planSentenceAlso)
                else [])"
  using assms
  by (auto simp: applyPlanSignal_def Let_def HasCriticalChanges_def planSentence_def
        planSentenceAlso_def split: option.splits)

lemma applySchemaSignal_analysis:
  "applySchemaSignal w (u\<lparr>AIAnalysis := a\<rparr>) = (applySchemaSignal w u)\<lparr>AIAnalysis := a\<rparr>"
  by (simp add: applySchemaSignal_def Let_def split: option.splits)

lemma applyPlanSignal_analysis:
  "fst (applyPlanSignal runner skipPlan (u\<lparr>AIAnalysis := a\<rparr>))
     = (fst (applyPlanSignal runner skipPlan u))\<lparr>AIAnalysis := a\<rparr>"
  by (simp add: applyPlanSignal_def Let_def split: option.splits)

text \<open>
  What the loop attaches: the schema change set is the result of \<open>CompareSchemas\<close> on
  the verdict's module and versions when both version strings are non-empty, and the
  resource summary is \<open>AnalyzeResourceChanges\<close> of the plan when a runner is present, the
  plan is not skipped, \<open>Init\<close> and \<open>Plan\<close> succeed and the plan result reports
  success; the two predicates on what is attached, in terms of the categories and of the
  counters.
\<close>

lemma applySchemaSignal_attached:
  assumes "SchemaChanges u = None"
  shows "SchemaChanges (applySchemaSignal w u)
           = (if CurrentVersion u \<noteq> [] \<and> LatestVersion u \<noteq> []
              then CompareSchemas w (Module u) (CurrentVersion u) (LatestVersion u) else None)"
  using assms by (simp add: applySchemaSignal_def Let_def split: option.splits)

lemma applyPlanSignal_attached:
  assumes "ResourceChanges u = None"
  shows "ResourceChanges (fst (applyPlanSignal runner skipPlan u))
           = (case runner of
                None \<Rightarrow> None
              | Some r \<Rightarrow>
                  if skipPlan \<or> InitFails r \<or> PlanFails r then None
                  else (case PlanResultOf r of
                          None \<Rightarrow> None
                        | Some p \<Rightarrow>
                            if Success p then Some (AnalyzeResourceChanges (Some p)) else None))"
  using assms by (simp add: applyPlanSignal_def Let_def split: option.splits)

lemma HasBreakingSchemaChanges_categories:
  "HasBreakingSchemaChanges x
     = (\<exists>ch. x = Some ch \<and> (AddedRequiredVars ch \<noteq> [] \<or> RemovedVars ch \<noteq> []
                               \<or> ChangedVarTypes ch \<noteq> [] \<or> RemovedOutputs ch \<noteq> []))"
  by (cases x) (auto simp: HasBreakingSchemaChanges_def)

lemma HasCriticalChanges_counts:
  "HasCriticalChanges x = (\<exists>s. x = Some s \<and> (TotalReplace s > 0 \<or> TotalDelete s > 0))"
  by (cases x) (auto simp: HasCriticalChanges_def)

text \<open>
  C1.  For every verdict \<open>u\<close> that \<open>Check\<close> returns, the breaking flag is the major
  signal; attaching the advisory analysis does not change it.  The aggregation loop
  attaches to it the schema change set that \<open>CompareSchemas\<close> computes for its module and
  versions, and the summary that \<open>AnalyzeResourceChanges\<close> computes from the plan.  The
  schema signal is raised when that change set has a non-empty breaking category, the
  resource signal when that summary has a replace count or a delete count above zero.
  The breaking flag of the resulting verdict \<open>v\<close> is true exactly when the update type is
  major or one of the two signals is raised; the verdict processed with any other
  advisory analysis attached differs in that field only.  The reason text of \<open>v\<close> is the
  text of \<open>u\<close> followed by the sentence of the schema signal, if that signal is raised,
  and then by the sentence of the resource signal, if that one is raised; each signal
  has one sentence for a text that is still empty and one that continues a text.
\<close>

theorem breaking_flag_aggregation:
  fixes u :: UpdateInfo and w :: World and runner :: "Runner option" and skipPlan :: bool
  assumes "u \<in> set (fst (fst (Check w c st modules)))"
  defines "v \<equiv> fst (processUpdate w runner skipPlan u)"
      and "comparison \<equiv>
             (if CurrentVersion u \<noteq> [] \<and> LatestVersion u \<noteq> []
              then CompareSchemas w (Module u) (CurrentVersion u) (LatestVersion u) else None)"
      and "summary \<equiv>
             (case runner of
                None \<Rightarrow> None
              | Some r \<Rightarrow>
                  if skipPlan \<or> InitFails r \<or> PlanFails r then None
                  else (case PlanResultOf r of
                          None \<Rightarrow> None
                        | Some p \<Rightarrow>
                            if Success p then Some (AnalyzeResourceChanges (Some p)) else None))"
  defines "schemaSignal \<equiv>
             (\<exists>ch. comparison = Some ch
                   \<and> (AddedRequiredVars ch \<noteq> [] \<or> RemovedVars ch \<noteq> []
                        \<or> ChangedVarTypes ch \<noteq> [] \<or> RemovedOutputs ch \<noteq> []))"
      and "planSignal \<equiv> (\<exists>s. summary = Some s \<and> (TotalReplace s > 0 \<or> TotalDelete s > 0))"
  shows "HasBreakingChange u = (UpdateType u = UpdateTypeMajor)
       \<and> HasBreakingChange (attachAnalysis c m u) = HasBreakingChange u
       \<and> UpdateType v = UpdateType u
       \<and> SchemaChanges v = comparison
       \<and> ResourceChanges v = summary
       \<and> schemaSignal = HasBreakingSchemaChanges (SchemaChanges v)
       \<and> planSignal = HasCriticalChanges (ResourceChanges v)
       \<and> HasBreakingChange v = (UpdateType u = UpdateTypeMajor \<or> schemaSignal \<or> planSignal)
       \<and> HasBreakingChange v
           = (UpdateType v = UpdateTypeMajor \<or> HasBreakingSchemaChanges (SchemaChanges v)
              \<or> HasCriticalChanges (ResourceChanges v))
       \<and> fst (processUpdate w runner skipPlan (u\<lparr>AIAnalysis := a\<rparr>)) = v\<lparr>AIAnalysis := a\<rparr>
       \<and> HasBreakingChange (fst (processUpdate w runner skipPlan (u\<lparr>AIAnalysis := a\<rparr>)))
           = HasBreakingChange v
       \<and> BreakingChangeDetails v
           = BreakingChangeDetails u
             @ (if schemaSignal
                then (if BreakingChangeDetails u = [] then schemaSentence else schemaSentenceAlso)
                else [])
             @ (if planSignal
                then (if BreakingChangeDetails u = [] \<and> \<not> schemaSignal then planSentence
                      else planSentenceAlso)
                else [])"
proof -
  have rv: "resolverVerdict u"
    using assms(1) by (rule Check_verdicts)
  define u1 where "u1 = applySchemaSignal w u"
  have v: "v = fst (applyPlanSignal runner skipPlan u1)"
    by (simp add: v_def processUpdate_def u1_def)
  have s0: "SchemaChanges u = None" and r0: "ResourceChanges u = None"
    and f0: "HasBreakingChange u = (UpdateType u = UpdateTypeMajor)"
    using rv by (simp_all add: resolverVerdict_def)
  have r1: "ResourceChanges u1 = None"
    by (simp add: u1_def applySchemaSignal_frame r0)
  have sv: "SchemaChanges v = SchemaChanges u1"
    by (simp add: v applyPlanSignal_frame)
  have c1: "SchemaChanges u1 = comparison"
    unfolding u1_def comparison_def by (rule applySchemaSignal_attached [OF s0])
  have cv: "SchemaChanges v = comparison"
    using sv c1 by simp
  have rs: "ResourceChanges v = summary"
    unfolding v summary_def by (rule applyPlanSignal_attached [OF r1])
  have ss: "schemaSignal = HasBreakingSchemaChanges (SchemaChanges u1)"
    unfolding schemaSignal_def c1 by (simp add: HasBreakingSchemaChanges_categories)
  have ps: "planSignal = HasCriticalChanges (ResourceChanges v)"
    unfolding planSignal_def rs by (simp add: HasCriticalChanges_counts)
  have f1: "HasBreakingChange u1 = (HasBreakingChange u \<or> schemaSignal)"
    unfolding ss u1_def by (rule applySchemaSignal_flag(1) [OF s0])
  have d1: "BreakingChangeDetails u1 = BreakingChangeDetails u
             @ (if schemaSignal
                then (if BreakingChangeDetails u = [] then schemaSentence else schemaSentenceAlso)
                else [])"
    unfolding ss u1_def by (rule applySchemaSignal_flag(2) [OF s0])
  have f2: "HasBreakingChange v = (HasBreakingChange u1 \<or> planSignal)"
    unfolding ps v by (rule applyPlanSignal_flag(1) [OF r1])
  have d2: "BreakingChangeDetails v = BreakingChangeDetails u1
             @ (if planSignal
                then (if BreakingChangeDetails u1 = [] then planSentence else planSentenceAlso)
                else [])"
    unfolding ps v by (rule applyPlanSignal_flag(2) [OF r1])
  have t: "UpdateType v = UpdateType u"
    by (simp add: v u1_def applyPlanSignal_frame applySchemaSignal_frame)
  have e1: "(BreakingChangeDetails u1 = []) = (BreakingChangeDetails u = [] \<and> \<not> schemaSignal)"
    unfolding d1 by (simp add: schemaSentence_def schemaSentenceAlso_def)
  have a: "fst (processUpdate w runner skipPlan (u\<lparr>AIAnalysis := a\<rparr>)) = v\<lparr>AIAnalysis := a\<rparr>"
    by (simp add: v_def processUpdate_def applySchemaSignal_analysis applyPlanSignal_analysis)
  have at: "HasBreakingChange (attachAnalysis c m u) = HasBreakingChange u"
    by (simp add: attachAnalysis_def split: option.splits)
  have ssv: "schemaSignal = HasBreakingSchemaChanges (SchemaChanges v)"
    using ss sv by simp
  have fl: "HasBreakingChange v = (UpdateType u = UpdateTypeMajor \<or> schemaSignal \<or> planSignal)"
    using f0 f1 f2 by simp
  have fl2: "HasBreakingChange v
           = (UpdateType v = UpdateTypeMajor \<or> HasBreakingSchemaChanges (SchemaChanges v)
              \<or> HasCriticalChanges (ResourceChanges v))"
    using fl t ssv ps by simp
  have dd: "BreakingChangeDetails v
           = BreakingChangeDetails u
             @ (if schemaSignal
                then (if BreakingChangeDetails u = [] then schemaSentence else schemaSentenceAlso)
                else [])
             @ (if planSignal
                then (if BreakingChangeDetails u = [] \<and> \<not> schemaSignal then planSentence
                      else planSentenceAlso)
                else [])"
    using d1 d2 e1 by simp
  have aa: "HasBreakingChange (fst (processUpdate w runner skipPlan (u\<lparr>AIAnalysis := a\<rparr>)))
           = HasBreakingChange v"
    using a by simp
  show ?thesis
    using f0 at t cv rs ssv ps fl fl2 a aa dd by blast
qed

section \<open>Failures of one dependency\<close>






lemma exampleBatch_verdicts:
  "fst (fst (Check exampleWorld exampleChecker exampleState exampleBatch)) = [vpcUpdate, consulUpdate]"
  by code_simp


lemma netBatch_verdicts:
  "fst (fst (Check netWorld exampleChecker exampleState [netModule])) = [netUpdate]"
  by code_simp

theorem breaking_flag_aggregation_witness:
  "vpcUpdate \<in> set (fst (fst (Check exampleWorld exampleChecker exampleState exampleBatch)))
   \<and> consulUpdate \<in> set (fst (fst (Check exampleWorld exampleChecker exampleState exampleBatch)))
   \<and> netUpdate \<in> set (fst (fst (Check netWorld exampleChecker exampleState [netModule])))
   \<and> HasBreakingChange vpcUpdate
   \<and> HasBreakingChange (fst (processUpdate exampleWorld (Some replaceRunner) False vpcUpdate))
   \<and> BreakingChangeDetails (fst (processUpdate exampleWorld (Some replaceRunner) False vpcUpdate))
       = BreakingChangeDetails vpcUpdate @ schemaSentenceAlso @ planSentenceAlso
   \<and> \<not> HasBreakingChange consulUpdate
   \<and> HasBreakingChange (fst (processUpdate exampleWorld (Some replaceRunner) False consulUpdate))
   \<and> BreakingChangeDetails (fst (processUpdate exampleWorld (Some replaceRunner) False consulUpdate))
       = planSentence
   \<and> \<not> HasBreakingChange (fst (processUpdate exampleWorld None False consulUpdate))
   \<and> BreakingChangeDetails (fst (processUpdate exampleWorld None False consulUpdate)) = []
   \<and> \<not> HasBreakingChange (fst (processUpdate exampleWorld (Some modifyRunner) False consulUpdate))
   \<and> ResourceChanges (fst (processUpdate exampleWorld (Some modifyRunner) False consulUpdate))
       = Some (AnalyzeResourceChanges (PlanResultOf modifyRunner))
   \<and> \<not> HasBreakingChange netUpdate
   \<and> UpdateType netUpdate = UpdateTypeMinor
   \<and> SchemaChanges (fst (processUpdate netWorld None False netUpdate))
       = CompareSchemas netWorld netModule ''1.0.0'' ''1.1.0''
   \<and> map vcName (RemovedVars (the (CompareSchemas netWorld netModule ''1.0.0'' ''1.1.0''))) = [''legacy'']
   \<and> HasBreakingChange (fst (processUpdate netWorld None False netUpdate))
   \<and> BreakingChangeDetails (fst (processUpdate netWorld None False netUpdate)) = schemaSentence"
proof -
  have mv: "vpcUpdate \<in> set (fst (fst (Check exampleWorld exampleChecker exampleState exampleBatch)))"
    and mc: "consulUpdate \<in> set (fst (fst (Check exampleWorld exampleChecker exampleState exampleBatch)))"
    by (simp_all add: exampleBatch_verdicts)
  have mn: "netUpdate \<in> set (fst (fst (Check netWorld exampleChecker exampleState [netModule])))"
    by (simp add: netBatch_verdicts)
  have tv: "UpdateType vpcUpdate = UpdateTypeMajor" and dv: "BreakingChangeDetails vpcUpdate \<noteq> []"
    and tc: "UpdateType consulUpdate \<noteq> UpdateTypeMajor" and dc: "BreakingChangeDetails consulUpdate = []"
    and tn: "UpdateType netUpdate = UpdateTypeMinor" and dn: "BreakingChangeDetails netUpdate = []"
    and cn: "CurrentVersion netUpdate = ''1.0.0''" "LatestVersion netUpdate = ''1.1.0''"
            "Module netUpdate = netModule"
    by (simp_all add: vpcUpdate_def consulUpdate_def netUpdate_def majorUpgradeDetails_def)
  have sv: "HasBreakingSchemaChanges
              (SchemaChanges (fst (processUpdate exampleWorld (Some replaceRunner) False vpcUpdate)))"
    by code_simp
  have pv: "HasCriticalChanges
              (ResourceChanges (fst (processUpdate exampleWorld (Some replaceRunner) False vpcUpdate)))"
    by code_simp
  have sc: "\<not> HasBreakingSchemaChanges
              (SchemaChanges (fst (processUpdate exampleWorld (Some replaceRunner) False consulUpdate)))"
    by code_simp
  have pc: "HasCriticalChanges
              (ResourceChanges (fst (processUpdate exampleWorld (Some replaceRunner) False consulUpdate)))"
    by code_simp
  have sn: "\<not> HasBreakingSchemaChanges
              (SchemaChanges (fst (processUpdate exampleWorld None False consulUpdate)))"
    by code_simp
  have pn: "\<not> HasCriticalChanges
              (ResourceChanges (fst (processUpdate exampleWorld None False consulUpdate)))"
    by code_simp
  have sm: "\<not> HasBreakingSchemaChanges
              (SchemaChanges (fst (processUpdate exampleWorld (Some modifyRunner) False consulUpdate)))"
    by code_simp
  have pm: "\<not> HasCriticalChanges
              (ResourceChanges (fst (processUpdate exampleWorld (Some modifyRunner) False consulUpdate)))"
    by code_simp
  have rm: "\<not> InitFails modifyRunner" "\<not> PlanFails modifyRunner"
           "PlanResultOf modifyRunner = Some (mkPlan [mkChange ''aws_security_group.main'' [''update'']])"
           "Success (mkPlan [mkChange ''aws_security_group.main'' [''update'']])"
    by (simp_all add: modifyRunner_def mkPlan_def)
  have nn: "HasBreakingSchemaChanges
              (SchemaChanges (fst (processUpdate netWorld None False netUpdate)))"
    by code_simp
  have np: "\<not> HasCriticalChanges
              (ResourceChanges (fst (processUpdate netWorld None False netUpdate)))"
    by code_simp
  have nr: "map vcName (RemovedVars (the (CompareSchemas netWorld netModule ''1.0.0'' ''1.1.0'')))
              = [''legacy'']"
    by code_simp
  note V = breaking_flag_aggregation [OF mv, where runner = "Some replaceRunner" and skipPlan = False]
  note C = breaking_flag_aggregation [OF mc, where runner = "Some replaceRunner" and skipPlan = False]
  note N = breaking_flag_aggregation [OF mc, where runner = None and skipPlan = False]
  note M = breaking_flag_aggregation [OF mc, where runner = "Some modifyRunner" and skipPlan = False]
  note S = breaking_flag_aggregation [OF mn, where runner = None and skipPlan = False]
  note V3 = V [THEN conjunct2, THEN conjunct2, THEN conjunct1]
  note V6 = V [THEN conjunct2, THEN conjunct2, THEN conjunct2, THEN conjunct2, THEN conjunct2, THEN conjunct1]
  note V7 = V [THEN conjunct2, THEN conjunct2, THEN conjunct2, THEN conjunct2, THEN conjunct2, THEN conjunct2, THEN conjunct1]
  note V9 = V [THEN conjunct2, THEN conjunct2, THEN conjunct2, THEN conjunct2, THEN conjunct2, THEN conjunct2, THEN conjunct2, THEN conjunct2, THEN conjunct1]
  note V12 = V [THEN conjunct2, THEN conjunct2, THEN conjunct2, THEN conjunct2, THEN conjunct2, THEN conjunct2, THEN conjunct2, THEN conjunct2, THEN conjunct2, THEN conjunct2, THEN conjunct2, unfolded V6 V7]
  note C3 = C [THEN conjunct2, THEN conjunct2, THEN conjunct1]
  note C6 = C [THEN conjunct2, THEN conjunct2, THEN conjunct2, THEN conjunct2, THEN conjunct2, THEN conjunct1]
  note C7 = C [THEN conjunct2, THEN conjunct2, THEN conjunct2, THEN conjunct2, THEN conjunct2, THEN conjunct2, THEN conjunct1]
  note C9 = C [THEN conjunct2, THEN conjunct2, THEN conjunct2, THEN conjunct2, THEN conjunct2, THEN conjunct2, THEN conjunct2, THEN conjunct2, THEN conjunct1]
  note C12 = C [THEN conjunct2, THEN conjunct2, THEN conjunct2, THEN conjunct2, THEN conjunct2, THEN conjunct2, THEN conjunct2, THEN conjunct2, THEN conjunct2, THEN conjunct2, THEN conjunct2, unfolded C6 C7]
  note N3 = N [THEN conjunct2, THEN conjunct2, THEN conjunct1]
  note N6 = N [THEN conjunct2, THEN conjunct2, THEN conjunct2, THEN conjunct2, THEN conjunct2, THEN conjunct1]
  note N7 = N [THEN conjunct2, THEN conjunct2, THEN conjunct2, THEN conjunct2, THEN conjunct2, THEN conjunct2, THEN conjunct1]
  note N9 = N [THEN conjunct2, THEN conjunct2, THEN conjunct2, THEN conjunct2, THEN conjunct2, THEN conjunct2, THEN conjunct2, THEN conjunct2, THEN conjunct1]
  note N12 = N [THEN conjunct2, THEN conjunct2, THEN conjunct2, THEN conjunct2, THEN conjunct2, THEN conjunct2, THEN conjunct2, THEN conjunct2, THEN conjunct2, THEN conjunct2, THEN conjunct2, unfolded N6 N7]
  note M3 = M [THEN conjunct2, THEN conjunct2, THEN conjunct1]
  note M6 = M [THEN conjunct2, THEN conjunct2, THEN conjunct2, THEN conjunct2, THEN conjunct2, THEN conjunct1]
  note M7 = M [THEN conjunct2, THEN conjunct2, THEN conjunct2, THEN conjunct2, THEN conjunct2, THEN conjunct2, THEN conjunct1]
  note M9 = M [THEN conjunct2, THEN conjunct2, THEN conjunct2, THEN conjunct2, THEN conjunct2, THEN conjunct2, THEN conjunct2, THEN conjunct2, THEN conjunct1]
  note M12 = M [THEN conjunct2, THEN conjunct2, THEN conjunct2, THEN conjunct2, THEN conjunct2, THEN conjunct2, THEN conjunct2, THEN conjunct2, THEN conjunct2, THEN conjunct2, THEN conjunct2, unfolded M6 M7]
  note S3 = S [THEN conjunct2, THEN conjunct2, THEN conjunct1]
  note S6 = S [THEN conjunct2, THEN conjunct2, THEN conjunct2, THEN conjunct2, THEN conjunct2, THEN conjunct1]
  note S7 = S [THEN conjunct2, THEN conjunct2, THEN conjunct2, THEN conjunct2, THEN conjunct2, THEN conjunct2, THEN conjunct1]
  note S9 = S [THEN conjunct2, THEN conjunct2, THEN conjunct2, THEN conjunct2, THEN conjunct2, THEN conjunct2, THEN conjunct2, THEN conjunct2, THEN conjunct1]
  note S12 = S [THEN conjunct2, THEN conjunct2, THEN conjunct2, THEN conjunct2, THEN conjunct2, THEN conjunct2, THEN conjunct2, THEN conjunct2, THEN conjunct2, THEN conjunct2, THEN conjunct2, unfolded S6 S7]
  have v: "HasBreakingChange vpcUpdate
   \<and> HasBreakingChange (fst (processUpdate exampleWorld (Some replaceRunner) False vpcUpdate))
   \<and> BreakingChangeDetails (fst (processUpdate exampleWorld (Some replaceRunner) False vpcUpdate))
       = BreakingChangeDetails vpcUpdate @ schemaSentenceAlso @ planSentenceAlso"
    using V [THEN conjunct1] V3 V9 V12 tv dv sv pv by simp
  have c: "\<not> HasBreakingChange consulUpdate
   \<and> HasBreakingChange (fst (processUpdate exampleWorld (Some replaceRunner) False consulUpdate))
   \<and> BreakingChangeDetails (fst (processUpdate exampleWorld (Some replaceRunner) False consulUpdate))
       = planSentence"
    using C [THEN conjunct1] C3 C9 C12 tc dc sc pc by simp
  have n: "\<not> HasBreakingChange (fst (processUpdate exampleWorld None False consulUpdate))
   \<and> BreakingChangeDetails (fst (processUpdate exampleWorld None False consulUpdate)) = []"
    using N [THEN conjunct1] N3 N9 N12 tc dc sn pn by simp
  have m: "\<not> HasBreakingChange (fst (processUpdate exampleWorld (Some modifyRunner) False consulUpdate))
   \<and> ResourceChanges (fst (processUpdate exampleWorld (Some modifyRunner) False consulUpdate))
       = Some (AnalyzeResourceChanges (PlanResultOf modifyRunner))"
    using M [THEN conjunct1] M3 M9 M [THEN conjunct2, THEN conjunct2, THEN conjunct2, THEN conjunct2, THEN conjunct1] tc dc sm pm rm by simp
  have s: "\<not> HasBreakingChange netUpdate
   \<and> SchemaChanges (fst (processUpdate netWorld None False netUpdate))
       = CompareSchemas netWorld netModule ''1.0.0'' ''1.1.0''
   \<and> HasBreakingChange (fst (processUpdate netWorld None False netUpdate))
   \<and> BreakingChangeDetails (fst (processUpdate netWorld None False netUpdate)) = schemaSentence"
    using S [THEN conjunct1] S3 S9 S12 S [THEN conjunct2, THEN conjunct2, THEN conjunct2, THEN conjunct1] tn dn cn nn np by simp
  show ?thesis
    using mv mc mn v c n m s tn nr by blast
qed

section \<open>Snapshots fetched from the registry\<close>

text \<open>
  Every snapshot that \<open>fetchRegistrySchema\<close> returns is well formed, so the statement
  about the change set applies to every comparison that \<open>CompareSchemas\<close> makes.
\<close>

lemma distinct_foldl_update:
  "distinct (map fst acc) \<Longrightarrow>
   distinct (map fst (foldl (\<lambda>m x. AList.update (k x) (v x) m) acc xs))"
  by (induction xs arbitrary: acc) (simp_all add: distinct_update)

lemma wellFormedSchema_schemaOfBody: "wellFormedSchema (schemaOfBody inputs outputs)"
  by (simp add: wellFormedSchema_def schemaOfBody_def distinct_foldl_update)

lemma fetchRegistrySchema_wellFormed:
  "fetchRegistrySchema w source v = Some s \<Longrightarrow> wellFormedSchema s"
  by (auto simp: fetchRegistrySchema_def Let_def wellFormedSchema_schemaOfBody
           split: prod.splits if_splits ModuleHttpResult.splits ModuleBody.splits)

lemma CompareSchemas_Some:
  "CompareSchemas w m cur lat = Some ch \<Longrightarrow>
   \<exists>c l. wellFormedSchema c \<and> wellFormedSchema l \<and> ch = compareSchemaStructures (Some c) (Some l)"
  by (auto simp: CompareSchemas_def split: if_splits option.splits
           intro: fetchRegistrySchema_wellFormed)

end
